theory Spec2Isabelle
  imports Main
begin

section \<open>Words, diagnostics and the syntax tree\<close>

text \<open>
  The word categories of \<^verbatim>\<open>enum class Category\<close> (scanner.hpp), in the order of the
  enumeration. Three enumerators carry a suffix because their names are taken in HOL:
  \<open>If_kw\<close>, \<open>Int_kw\<close> and \<open>Plus_op\<close> stand for \<^verbatim>\<open>If\<close>, \<^verbatim>\<open>Int\<close> and \<^verbatim>\<open>Plus\<close>.

  The last constructor, \<open>Eof\<close>, is not an enumerator of scanner.hpp: the enumeration
  there ends with \<^verbatim>\<open>CloseCurly\<close>. It stands for \<^verbatim>\<open>Category::Eof\<close>, which parser.cpp names in
  the condition of the loop of \<^verbatim>\<open>Parser::parse_program\<close> and which the spec gives to the
  word past the end of the input.
\<close>

datatype Category =
    Identifier | Number
  | Else | If_kw | Int_kw | Return | Void | While
  | Plus_op | Minus | Multiply | Divide
  | Less | LessEqual | Greater | GreaterEqual | Equal | NotEqual
  | Assign | Semicolon | Comma
  | OpenParen | CloseParen | OpenBracket | CloseBracket | OpenCurly | CloseCurly
  | Eof

text \<open>
  \<^verbatim>\<open>struct Word { category; lexeme }\<close>. The lexeme is the text of the range; positions
  in the source file are not modelled.
\<close>

record Word =
  category :: Category
  lexeme :: string

text \<open>\<^verbatim>\<open>enum class Diag\<close> (diagnostics.hpp).\<close>

datatype Diag =
    lexer_bad_number | lexer_bad_char | lexer_unclosed_comment
  | parser_expected_token | parser_expected_type | parser_expected_expression
  | parser_expected_statement | parser_number_too_big
  | sema_redefinition | sema_undeclared_identifier | sema_fun_is_not_a_fun
  | sema_var_is_not_a_var | sema_var_cannot_be_void

text \<open>\<^verbatim>\<open>using DiagParam = std::variant<Category, SourceRange>\<close>.\<close>

datatype DiagParam = CategoryParam Category | RangeParam string

text \<open>
  \<^verbatim>\<open>struct Diagnostic\<close>, without the source file, the location and the highlighted
  ranges: the code and the arguments are what the parser chooses.
\<close>

record Diagnostic =
  code :: Diag
  args :: "DiagParam list"

text \<open>
  Modelled from the spec: the syntax tree (ast.hpp is not among the sources). The node
  variants and their fields are those of the spec's data model; the constructors carry
  the names of the C++ classes that ast-codegen-visitor.hpp visits. A function
  declaration is mutated after it has been installed in a scope (\<^verbatim>\<open>add_param\<close>,
  \<^verbatim>\<open>set_body\<close>), so declarations of functions are referred to by a handle into a store
  of function declarations, as the spec's design notes suggest.
\<close>

datatype ExprType = IntTy | VoidTy | IntArrayTy

datatype ASTVarDecl =
  ASTVarDecl (var_type: ExprType) (var_name: string) (array_size: "nat option")

datatype ASTParmVarDecl =
  ASTParmVarDecl (parm_type: ExprType) (parm_name: string) (is_array: bool)

datatype Decl = VarDecl ASTVarDecl | ParmVarDecl ASTParmVarDecl | FunDecl nat

datatype Expr =
    ASTNumber int
  | ASTVarRef "Decl option" "Expr option"
  | ASTFunCall "Decl option" "Expr list"
  | ASTBinaryExpr Category Expr Expr

datatype Stmt =
    ASTNullStmt
  | ASTCompoundStmt "ASTVarDecl list" "Stmt list"
  | ASTSelectionStmt Expr Stmt "Stmt option"
  | ASTIterationStmt Expr Stmt
  | ASTReturnStmt "Expr option" Word
  | ExprStmt Expr

record ASTFunDecl =
  retn :: ExprType
  name :: string
  params :: "ASTParmVarDecl list"
  body :: "Stmt option"

datatype ASTProgram = ASTProgram (decls: "Decl list")

text \<open>
  Modelled from the spec: the scope stack of the semantic actions (the class Semantics is
  not among the sources). A frame maps names to declarations and carries its flags.
\<close>

datatype ScopeFlags = CompoundStmt | FunParamsScope | FunScope

record Scope =
  flags :: "ScopeFlags set"
  symbols :: "(string \<times> Decl) list"

section \<open>The state of a parse\<close>

text \<open>
  The parser reads words from the scanner, reports to the diagnostic manager and calls
  the semantic actions, which keep the scope stack and build the tree. The state of a
  parse is what these hold: the words the scanner has still to deliver (the lookahead
  window is their first three), the diagnostics emitted so far in order, the scope
  stack (innermost frame first), and the store of function declarations.
\<close>

record parser_state =
  words :: "Word list"
  diags :: "Diagnostic list"
  scopes :: "Scope list"
  fun_decls :: "ASTFunDecl list"

definition initial_state :: "Word list \<Rightarrow> parser_state" where
  "initial_state ws = \<lparr>words = ws, diags = [], scopes = [], fun_decls = []\<rparr>"

text \<open>\<^verbatim>\<open>diagman.report(source, loc, code, args...)\<close>: the diagnostic is emitted when the
  builder is destroyed, at the end of the statement.\<close>

definition report :: "Diag \<Rightarrow> DiagParam list \<Rightarrow> parser_state \<Rightarrow> parser_state" where
  "report c as st = st\<lparr>diags := diags st @ [\<lparr>code = c, args = as\<rparr>]\<rparr>"

subsection \<open>The lookahead window\<close>

text \<open>
  Modelled from the spec: the members of the class Parser that parser.hpp declares
  (\<^verbatim>\<open>peek_word\<close>, \<^verbatim>\<open>lookahead\<close>, \<^verbatim>\<open>consume\<close>, \<^verbatim>\<open>try_consume\<close>, \<^verbatim>\<open>expect_and_consume\<close>);
  parser.hpp is not among the sources. The window slides over the words of the scanner
  and holds the sentinel word of category \<open>Eof\<close> past the last one. A miss of
  \<^verbatim>\<open>expect_and_consume\<close> emits \<^verbatim>\<open>parser_expected_token\<close> with the expected category
  as its argument.
\<close>

definition eof_word :: Word where
  "eof_word = \<lparr>category = Eof, lexeme = []\<rparr>"

definition lookahead :: "nat \<Rightarrow> parser_state \<Rightarrow> Word" where
  "lookahead n st = (if n < length (words st) then words st ! n else eof_word)"

definition peek_word :: "parser_state \<Rightarrow> Word" where
  "peek_word st = lookahead 0 st"

definition consume :: "parser_state \<Rightarrow> parser_state" where
  "consume st = st\<lparr>words := drop 1 (words st)\<rparr>"

definition try_consume :: "Category list \<Rightarrow> parser_state \<Rightarrow> Word option \<times> parser_state" where
  "try_consume cats st =
     (if category (peek_word st) \<in> set cats then (Some (peek_word st), consume st)
      else (None, st))"

definition expect_and_consume :: "Category \<Rightarrow> parser_state \<Rightarrow> Word option \<times> parser_state" where
  "expect_and_consume cat st =
     (case try_consume [cat] st of
        (Some w, st1) \<Rightarrow> (Some w, st1)
      | (None, st1) \<Rightarrow> (None, report parser_expected_token [CategoryParam cat] st1))"

subsection \<open>The semantic actions\<close>

text \<open>
  Modelled from the spec: the semantic actions of the class Semantics and the scoped
  object \<^verbatim>\<open>ParseScope\<close>, which pushes a frame when it is constructed and pops it when
  it is destroyed. An action that emits a diagnostic still returns its node. A lookup
  searches the frames from the innermost outwards.
\<close>

definition push_scope :: "ScopeFlags set \<Rightarrow> parser_state \<Rightarrow> parser_state" where
  "push_scope fl st = st\<lparr>scopes := \<lparr>flags = fl, symbols = []\<rparr> # scopes st\<rparr>"

definition pop_scope :: "parser_state \<Rightarrow> parser_state" where
  "pop_scope st = st\<lparr>scopes := tl (scopes st)\<rparr>"

fun lookup_decl :: "string \<Rightarrow> Scope list \<Rightarrow> Decl option" where
  "lookup_decl n [] = None"
| "lookup_decl n (f # fs) =
     (case map_of (symbols f) n of Some d \<Rightarrow> Some d | None \<Rightarrow> lookup_decl n fs)"

text \<open>Binding a name in the current (innermost) frame: the newest binding of a name is
  the one a lookup finds.\<close>

definition install :: "string \<Rightarrow> Decl \<Rightarrow> parser_state \<Rightarrow> parser_state" where
  "install n d st =
     (case scopes st of
        [] \<Rightarrow> st
      | f # fs \<Rightarrow> st\<lparr>scopes := f\<lparr>symbols := (n, d) # symbols f\<rparr> # fs\<rparr>)"

text \<open>A variable or a parameter is rejected when its name exists in the current frame.\<close>

definition declared_in_current :: "string \<Rightarrow> parser_state \<Rightarrow> bool" where
  "declared_in_current n st =
     (case scopes st of [] \<Rightarrow> False | f # fs \<Rightarrow> map_of (symbols f) n \<noteq> None)"

definition declare_variable :: "Word \<Rightarrow> Word \<Rightarrow> Decl \<Rightarrow> parser_state \<Rightarrow> parser_state" where
  "declare_variable type_word id_word d st =
     (if category type_word = Void then report sema_var_cannot_be_void [] st
      else if declared_in_current (lexeme id_word) st
           then report sema_redefinition [RangeParam (lexeme id_word)] st
      else install (lexeme id_word) d st)"

definition word_type :: "Word \<Rightarrow> ExprType" where
  "word_type w = (if category w = Void then VoidTy else IntTy)"

definition act_on_program_start :: "parser_state \<Rightarrow> ASTProgram \<times> parser_state" where
  "act_on_program_start st = (ASTProgram [], push_scope {} st)"

definition act_on_program_end :: "ASTProgram \<Rightarrow> parser_state \<Rightarrow> ASTProgram option \<times> parser_state" where
  "act_on_program_end program st = (Some program, pop_scope st)"

definition act_on_top_level_decl :: "ASTProgram \<Rightarrow> Decl \<Rightarrow> ASTProgram" where
  "act_on_top_level_decl program decl = ASTProgram (decls program @ [decl])"

definition number_value :: "Expr \<Rightarrow> nat" where
  "number_value e = (case e of ASTNumber v \<Rightarrow> nat v | _ \<Rightarrow> 0)"

definition act_on_var_decl ::
  "Word \<Rightarrow> Word \<Rightarrow> Expr option \<Rightarrow> parser_state \<Rightarrow> ASTVarDecl option \<times> parser_state" where
  "act_on_var_decl type_word id_word num st =
     (let decl = ASTVarDecl (if num = None then word_type type_word else IntArrayTy)
                   (lexeme id_word) (map_option number_value num)
      in (Some decl, declare_variable type_word id_word (VarDecl decl) st))"

definition act_on_param_decl ::
  "Word \<Rightarrow> Word \<Rightarrow> bool \<Rightarrow> parser_state \<Rightarrow> ASTParmVarDecl option \<times> parser_state" where
  "act_on_param_decl type_word id_word arr st =
     (let decl = ASTParmVarDecl (if arr then IntArrayTy else word_type type_word)
                   (lexeme id_word) arr
      in (Some decl, declare_variable type_word id_word (ParmVarDecl decl) st))"

text \<open>
  \<^verbatim>\<open>act_on_fun_decl_start\<close> creates the shell of the function declaration and installs
  it in the current frame at once; the handle of the shell is the next free place of
  the store. The insertion fails when the name exists in the current frame, as that of
  a variable does: the redefinition is diagnosed and the frame stays as it is. The shell
  is returned in both cases (the parser asserts that it is not null).
\<close>

definition act_on_fun_decl_start :: "Word \<Rightarrow> Word \<Rightarrow> parser_state \<Rightarrow> nat \<times> parser_state" where
  "act_on_fun_decl_start retn_word id_word st =
     (let fd = length (fun_decls st);
          shell = \<lparr>retn = word_type retn_word, name = lexeme id_word, params = [], body = None\<rparr>;
          st1 = st\<lparr>fun_decls := fun_decls st @ [shell]\<rparr>
      in (fd, if declared_in_current (lexeme id_word) st1
              then report sema_redefinition [RangeParam (lexeme id_word)] st1
              else install (lexeme id_word) (FunDecl fd) st1))"

definition add_param :: "nat \<Rightarrow> ASTParmVarDecl \<Rightarrow> parser_state \<Rightarrow> parser_state" where
  "add_param fd param st =
     st\<lparr>fun_decls := (fun_decls st)
        [fd := (fun_decls st ! fd)\<lparr>params := params (fun_decls st ! fd) @ [param]\<rparr>]\<rparr>"

definition set_body :: "nat \<Rightarrow> Stmt \<Rightarrow> parser_state \<Rightarrow> parser_state" where
  "set_body fd stmt st =
     st\<lparr>fun_decls := (fun_decls st)[fd := (fun_decls st ! fd)\<lparr>body := Some stmt\<rparr>]\<rparr>"

definition act_on_fun_decl_end :: "nat \<Rightarrow> parser_state \<Rightarrow> nat option \<times> parser_state" where
  "act_on_fun_decl_end fd st = (Some fd, st)"

definition act_on_null_stmt :: Stmt where
  "act_on_null_stmt = ASTNullStmt"

definition act_on_expr_stmt :: "Expr \<Rightarrow> Stmt" where
  "act_on_expr_stmt expr = ExprStmt expr"

definition act_on_compound_stmt :: "ASTVarDecl list \<Rightarrow> Stmt list \<Rightarrow> Stmt" where
  "act_on_compound_stmt ds stms = ASTCompoundStmt ds stms"

definition act_on_selection_stmt :: "Expr \<Rightarrow> Stmt \<Rightarrow> Stmt option \<Rightarrow> Stmt" where
  "act_on_selection_stmt expr stmt1 stmt2 = ASTSelectionStmt expr stmt1 stmt2"

definition act_on_iteration_stmt :: "Expr \<Rightarrow> Stmt \<Rightarrow> Stmt" where
  "act_on_iteration_stmt expr stmt = ASTIterationStmt expr stmt"

definition act_on_return_stmt :: "Expr option \<Rightarrow> Word \<Rightarrow> Stmt" where
  "act_on_return_stmt expr return_word = ASTReturnStmt expr return_word"

text \<open>The decimal value of a lexeme; a number beyond the signed 32-bit range is
  diagnosed and clamped.\<close>

definition digit_value :: "char \<Rightarrow> int" where
  "digit_value c = int (of_char c) - 48"

definition decimal_value :: "string \<Rightarrow> int" where
  "decimal_value s = foldl (\<lambda>acc c. acc * 10 + digit_value c) 0 s"

definition act_on_number :: "Word \<Rightarrow> parser_state \<Rightarrow> Expr option \<times> parser_state" where
  "act_on_number word st =
     (if decimal_value (lexeme word) > 2147483647
      then (Some (ASTNumber 2147483647), report parser_number_too_big [] st)
      else (Some (ASTNumber (decimal_value (lexeme word))), st))"

definition act_on_var :: "Word \<Rightarrow> Expr option \<Rightarrow> parser_state \<Rightarrow> Expr option \<times> parser_state" where
  "act_on_var id_word index st =
     (case lookup_decl (lexeme id_word) (scopes st) of
        None \<Rightarrow> (Some (ASTVarRef None index),
                 report sema_undeclared_identifier [RangeParam (lexeme id_word)] st)
      | Some (FunDecl fd) \<Rightarrow> (Some (ASTVarRef None index), report sema_var_is_not_a_var [] st)
      | Some d \<Rightarrow> (Some (ASTVarRef (Some d) index), st))"

definition act_on_call :: "Word \<Rightarrow> Expr list \<Rightarrow> parser_state \<Rightarrow> Expr option \<times> parser_state" where
  "act_on_call id_word as st =
     (case lookup_decl (lexeme id_word) (scopes st) of
        None \<Rightarrow> (Some (ASTFunCall None as),
                 report sema_undeclared_identifier [RangeParam (lexeme id_word)] st)
      | Some (FunDecl fd) \<Rightarrow> (Some (ASTFunCall (Some (FunDecl fd)) as), st)
      | Some d \<Rightarrow> (Some (ASTFunCall None as), report sema_fun_is_not_a_fun [] st))"

definition act_on_assign :: "Expr \<Rightarrow> Expr \<Rightarrow> Word \<Rightarrow> Expr" where
  "act_on_assign lhs rhs op_word = ASTBinaryExpr Assign lhs rhs"

definition act_on_binary_expr :: "Expr \<Rightarrow> Expr \<Rightarrow> Word \<Rightarrow> Expr" where
  "act_on_binary_expr lhs rhs op_word = ASTBinaryExpr (category op_word) lhs rhs"

text \<open>\<^verbatim>\<open>as_var_expr\<close>: the node itself when it is a variable reference, null otherwise.\<close>

fun as_var_expr :: "Expr \<Rightarrow> Expr option" where
  "as_var_expr (ASTVarRef d i) = Some (ASTVarRef d i)"
| "as_var_expr e = None"

section \<open>The parser\<close>

text \<open>
  The productions of parser.cpp. A production returns its node, or null, and the state
  it leaves behind: \<open>None\<close> is the null pointer of the source. A \<^verbatim>\<open>while\<close> loop of a
  production is a recursive function of its own, named after the production.
\<close>

subsection \<open>Facts about the lookahead window\<close>

lemma words_report [simp]: "words (report c as st) = words st"
  by (simp add: report_def)

lemma peek_not_eof: "category (peek_word st) \<noteq> Eof \<Longrightarrow> words st \<noteq> []"
  by (auto simp: peek_word_def lookahead_def eof_word_def)

lemma consume_length:
  "category (peek_word st) \<noteq> Eof \<Longrightarrow> length (words (consume st)) < length (words st)"
  using peek_not_eof [of st] by (simp add: consume_def)

lemma words_consume [simp]: "words (consume st) = tl (words st)"
  by (simp add: consume_def drop_Suc)

lemma try_consume_None:
  "(try_consume cats st = (None, st1)) = (category (peek_word st) \<notin> set cats \<and> st1 = st)"
  by (auto simp: try_consume_def)

lemma try_consume_Some:
  "(try_consume cats st = (Some w, st1)) =
     (category (peek_word st) \<in> set cats \<and> w = peek_word st \<and> st1 = consume st)"
  by (auto simp: try_consume_def)

lemma expect_and_consume_None:
  "(expect_and_consume c st = (None, st1)) =
     (category (peek_word st) \<noteq> c \<and> st1 = report parser_expected_token [CategoryParam c] st)"
  by (auto simp: expect_and_consume_def try_consume_def)

lemma expect_and_consume_Some:
  "(expect_and_consume c st = (Some w, st1)) =
     (category (peek_word st) = c \<and> w = peek_word st \<and> st1 = consume st)"
  by (auto simp: expect_and_consume_def try_consume_def)

subsection \<open>Declarations of variables and parameters\<close>

text \<open>\<^verbatim>\<open>Parser::parse_number\<close>.\<close>

definition parse_number :: "parser_state \<Rightarrow> Expr option \<times> parser_state" where
  "parse_number st =
     (case expect_and_consume Number st of
        (Some word, st1) \<Rightarrow> act_on_number word st1
      | (None, st1) \<Rightarrow> (None, st1))"

text \<open>\<^verbatim>\<open>Parser::expect_and_consume_type\<close>.\<close>

definition expect_and_consume_type :: "parser_state \<Rightarrow> Word option \<times> parser_state" where
  "expect_and_consume_type st =
     (case try_consume [Void, Int_kw] st of
        (Some type_word, st1) \<Rightarrow> (Some type_word, st1)
      | (None, st1) \<Rightarrow> (None, report parser_expected_type [] st1))"

text \<open>\<^verbatim>\<open>Parser::parse_var_declaration\<close>. The bracketed size is optional; both ways
  meet again at the semicolon, which \<open>parse_var_declaration_rest\<close> expects before it
  calls the semantic action.\<close>

definition parse_var_declaration_rest ::
  "Word \<Rightarrow> Word \<Rightarrow> Expr option \<Rightarrow> parser_state \<Rightarrow> ASTVarDecl option \<times> parser_state" where
  "parse_var_declaration_rest type_word id_word num st =
     (case expect_and_consume Semicolon st of
        (None, st1) \<Rightarrow> (None, st1)
      | (Some w, st1) \<Rightarrow> act_on_var_decl type_word id_word num st1)"

definition parse_var_declaration :: "parser_state \<Rightarrow> ASTVarDecl option \<times> parser_state" where
  "parse_var_declaration st =
     (case expect_and_consume_type st of
        (None, st1) \<Rightarrow> (None, st1)
      | (Some type_word, st1) \<Rightarrow>
     (case expect_and_consume Identifier st1 of
        (None, st2) \<Rightarrow> (None, st2)
      | (Some id_word, st2) \<Rightarrow>
          (if category (peek_word st2) = OpenBracket
           then (case parse_number (consume st2) of
                   (None, st3) \<Rightarrow> (None, st3)
                 | (Some num, st3) \<Rightarrow>
                     (case expect_and_consume CloseBracket st3 of
                        (None, st4) \<Rightarrow> (None, st4)
                      | (Some w, st4) \<Rightarrow>
                          parse_var_declaration_rest type_word id_word (Some num) st4))
           else parse_var_declaration_rest type_word id_word None st2)))"

text \<open>\<^verbatim>\<open>Parser::parse_param\<close>.\<close>

definition parse_param :: "parser_state \<Rightarrow> ASTParmVarDecl option \<times> parser_state" where
  "parse_param st =
     (case expect_and_consume_type st of
        (None, st1) \<Rightarrow> (None, st1)
      | (Some type_word, st1) \<Rightarrow>
     (case expect_and_consume Identifier st1 of
        (None, st2) \<Rightarrow> (None, st2)
      | (Some id_word, st2) \<Rightarrow>
     (case try_consume [OpenBracket] st2 of
        (Some w, st3) \<Rightarrow>
          (case expect_and_consume CloseBracket st3 of
             (None, st4) \<Rightarrow> (None, st4)
           | (Some w', st4) \<Rightarrow> act_on_param_decl type_word id_word True st4)
      | (None, st3) \<Rightarrow> act_on_param_decl type_word id_word False st3)))"

subsection \<open>The words are only ever consumed\<close>

lemma words_push_scope [simp]: "words (push_scope fl st) = words st"
  by (simp add: push_scope_def)

lemma words_pop_scope [simp]: "words (pop_scope st) = words st"
  by (simp add: pop_scope_def)

lemma words_install [simp]: "words (install n d st) = words st"
  by (simp add: install_def split: list.splits)

lemma words_declare_variable [simp]: "words (declare_variable t i d st) = words st"
  by (simp add: declare_variable_def)

lemma words_add_param [simp]: "words (add_param fd p st) = words st"
  by (simp add: add_param_def)

lemma words_set_body [simp]: "words (set_body fd b st) = words st"
  by (simp add: set_body_def)

lemma act_on_var_decl_words:
  "act_on_var_decl t i n st = (r, st1) \<Longrightarrow> words st1 = words st \<and> r \<noteq> None"
  by (auto simp: act_on_var_decl_def Let_def)

lemma act_on_param_decl_words:
  "act_on_param_decl t i a st = (r, st1) \<Longrightarrow> words st1 = words st \<and> r \<noteq> None"
  by (auto simp: act_on_param_decl_def Let_def)

lemma act_on_fun_decl_start_words:
  "act_on_fun_decl_start t i st = (fd, st1) \<Longrightarrow> words st1 = words st"
  by (auto simp: act_on_fun_decl_start_def Let_def)

lemma act_on_number_words:
  "act_on_number w st = (r, st1) \<Longrightarrow> words st1 = words st \<and> r \<noteq> None"
  by (auto simp: act_on_number_def split: if_splits)

lemma act_on_var_words:
  "act_on_var i x st = (r, st1) \<Longrightarrow> words st1 = words st \<and> r \<noteq> None"
  by (auto simp: act_on_var_def split: option.splits Decl.splits)

lemma act_on_call_words:
  "act_on_call i as st = (r, st1) \<Longrightarrow> words st1 = words st \<and> r \<noteq> None"
  by (auto simp: act_on_call_def split: option.splits Decl.splits)

text \<open>
  A production \<open>consumes\<close> when it leaves no more words than it found, and fewer when it
  returns a node; it \<open>keeps_words\<close> when it leaves no more words than it found.
\<close>

definition keeps_words :: "parser_state \<Rightarrow> 'a \<times> parser_state \<Rightarrow> bool" where
  "keeps_words st res = (length (words (snd res)) \<le> length (words st))"

definition consumes :: "parser_state \<Rightarrow> 'a option \<times> parser_state \<Rightarrow> bool" where
  "consumes st res =
     (length (words (snd res)) \<le> length (words st) \<and>
      (fst res \<noteq> None \<longrightarrow> length (words (snd res)) < length (words st)))"

lemma keeps_words_Pair [simp]:
  "keeps_words st (r, st1) = (length (words st1) \<le> length (words st))"
  by (simp add: keeps_words_def)

lemma consumes_None [simp]: "consumes st (None, st1) = (length (words st1) \<le> length (words st))"
  by (simp add: consumes_def)

lemma consumes_Some [simp]: "consumes st (Some x, st1) = (length (words st1) < length (words st))"
  by (auto simp: consumes_def)

lemma consumes_keeps_words: "consumes st res \<Longrightarrow> keeps_words st res"
  by (simp add: consumes_def keeps_words_def)

text \<open>How the bounds pass through a production that goes on after a call: the
  equations that name the result of the call are oriented as in the induction rule.\<close>

lemma consumes_seq:
  assumes "consumes s0 p" and "length (words s0) \<le> length (words st)"
    and "\<And>x s. (Some x, s) = p \<Longrightarrow> keeps_words s (g x s)"
    and "\<And>s. (None, s) = p \<Longrightarrow> consumes s (h s)"
  shows "consumes st (case p of (None, s) \<Rightarrow> h s | (Some x, s) \<Rightarrow> g x s)"
proof (cases p)
  case (Pair r s)
  show ?thesis
  proof (cases r)
    case None
    with Pair assms(1,2) assms(4) [of s] show ?thesis
      by (auto simp: consumes_def)
  next
    case (Some x)
    with Pair assms(1,2) assms(3) [of x s] show ?thesis
      by (auto simp: consumes_def keeps_words_def)
  qed
qed

lemma keeps_words_seq:
  assumes "keeps_words s0 p" and "length (words s0) \<le> length (words st)"
    and "\<And>x s. (Some x, s) = p \<Longrightarrow> keeps_words s (g x s)"
    and "\<And>s. (None, s) = p \<Longrightarrow> keeps_words s (h s)"
  shows "keeps_words st (case p of (None, s) \<Rightarrow> h s | (Some x, s) \<Rightarrow> g x s)"
proof (cases p)
  case (Pair r s)
  show ?thesis
  proof (cases r)
    case None
    with Pair assms(1,2) assms(4) [of s] show ?thesis
      by (auto simp: keeps_words_def)
  next
    case (Some x)
    with Pair assms(1,2) assms(3) [of x s] show ?thesis
      by (auto simp: keeps_words_def)
  qed
qed

lemma consumes_if:
  "(c \<Longrightarrow> consumes st a) \<Longrightarrow> (\<not> c \<Longrightarrow> consumes st b) \<Longrightarrow> consumes st (if c then a else b)"
  by simp

lemma keeps_words_if:
  "(c \<Longrightarrow> keeps_words st a) \<Longrightarrow> (\<not> c \<Longrightarrow> keeps_words st b) \<Longrightarrow>
     keeps_words st (if c then a else b)"
  by simp

lemma consumes_option:
  "(\<And>x. r = Some x \<Longrightarrow> consumes st (g x)) \<Longrightarrow> (r = None \<Longrightarrow> consumes st h) \<Longrightarrow>
     consumes st (case r of None \<Rightarrow> h | Some x \<Rightarrow> g x)"
  by (cases r) auto

lemma keeps_words_option:
  "(\<And>x. r = Some x \<Longrightarrow> keeps_words st (g x)) \<Longrightarrow> (r = None \<Longrightarrow> keeps_words st h) \<Longrightarrow>
     keeps_words st (case r of None \<Rightarrow> h | Some x \<Rightarrow> g x)"
  by (cases r) auto

lemma expect_and_consume_consumes: "c \<noteq> Eof \<Longrightarrow> consumes st (expect_and_consume c st)"
  using consume_length [of st]
  by (auto simp: expect_and_consume_def try_consume_def consumes_def)

lemma try_consume_consumes: "Eof \<notin> set cats \<Longrightarrow> consumes st (try_consume cats st)"
proof (cases "category (peek_word st) \<in> set cats")
  case True
  assume "Eof \<notin> set cats"
  with True have "category (peek_word st) \<noteq> Eof"
    by auto
  with True show ?thesis
    using consume_length [of st] by (simp add: try_consume_def)
next
  case False
  then show ?thesis
    by (simp add: try_consume_def)
qed

lemma act_on_number_keeps_words: "keeps_words st (act_on_number w st)"
  by (simp add: act_on_number_def)

lemma act_on_var_decl_keeps_words: "keeps_words st (act_on_var_decl t i n st)"
  by (simp add: act_on_var_decl_def Let_def)

lemma act_on_param_decl_keeps_words: "keeps_words st (act_on_param_decl t i a st)"
  by (simp add: act_on_param_decl_def Let_def)

lemma act_on_var_keeps_words: "keeps_words st (act_on_var i x st)"
  by (simp add: act_on_var_def split: option.splits Decl.splits)

lemma act_on_call_keeps_words: "keeps_words st (act_on_call i as st)"
  by (simp add: act_on_call_def split: option.splits Decl.splits)

lemmas consumes_intros =
  consumes_seq keeps_words_seq consumes_if keeps_words_if consumes_option keeps_words_option
  expect_and_consume_consumes try_consume_consumes
  expect_and_consume_consumes [THEN consumes_keeps_words]
  try_consume_consumes [THEN consumes_keeps_words]
  act_on_number_keeps_words act_on_var_decl_keeps_words act_on_param_decl_keeps_words
  act_on_var_keeps_words act_on_call_keeps_words

lemma parse_number_consumes: "consumes st (parse_number st)"
  unfolding parse_number_def by (rule consumes_intros | simp (no_asm))+

lemma expect_and_consume_type_consumes: "consumes st (expect_and_consume_type st)"
  unfolding expect_and_consume_type_def by (rule consumes_intros | simp (no_asm))+

lemma parse_var_declaration_rest_keeps_words:
  "keeps_words st (parse_var_declaration_rest t i n st)"
  unfolding parse_var_declaration_rest_def by (rule consumes_intros | simp (no_asm))+

lemma parse_var_declaration_consumes: "consumes st (parse_var_declaration st)"
  unfolding parse_var_declaration_def
  by (rule consumes_intros expect_and_consume_type_consumes
        parse_number_consumes [THEN consumes_keeps_words]
        parse_var_declaration_rest_keeps_words | simp (no_asm))+

lemma parse_param_consumes: "consumes st (parse_param st)"
  unfolding parse_param_def
  by (rule consumes_intros expect_and_consume_type_consumes | simp (no_asm))+

subsection \<open>Statements and expressions\<close>

text \<open>The first loop of \<^verbatim>\<open>Parser::parse_compound_stmt\<close>: local declarations, as long as
  the next word is a type.\<close>

function parse_compound_stmt_decls ::
  "ASTVarDecl list \<Rightarrow> parser_state \<Rightarrow> ASTVarDecl list option \<times> parser_state" where
  "parse_compound_stmt_decls ds st =
     (if category (peek_word st) = Void \<or> category (peek_word st) = Int_kw
      then (case parse_var_declaration st of
              (Some decl, st1) \<Rightarrow> parse_compound_stmt_decls (ds @ [decl]) st1
            | (None, st1) \<Rightarrow> (None, st1))
      else (Some ds, st))"
  by pat_completeness auto
termination
proof (relation "measure (\<lambda>(ds, st). length (words st))")
  show "wf (measure (\<lambda>(ds, st). length (words st)))"
    by simp
next
  fix ds :: "ASTVarDecl list" and st x1 st1 decl
  assume "(x1, st1) = parse_var_declaration st" and "x1 = Some decl"
  then have "consumes st (Some decl, st1)"
    using parse_var_declaration_consumes [of st] by simp
  then show "((ds @ [decl], st1), (ds, st)) \<in> measure (\<lambda>(ds, st). length (words st))"
    by simp
qed

declare parse_compound_stmt_decls.simps [simp del]

text \<open>
  The productions from \<^verbatim>\<open>parse_statement\<close> to \<^verbatim>\<open>parse_call\<close> call one another.
  \<open>parse_compound_stmt_stmts\<close> is the second loop of \<^verbatim>\<open>parse_compound_stmt\<close>;
  \<open>parse_additive_expression_loop\<close> and \<open>parse_term_loop\<close> are the loops of
  \<^verbatim>\<open>parse_additive_expression\<close> and \<^verbatim>\<open>parse_term\<close>; \<open>parse_call_args\<close> is the loop of
  \<^verbatim>\<open>parse_call\<close> with the rest of that production. The scoped object of
  \<^verbatim>\<open>parse_compound_stmt\<close> pops its frame on every way out.
\<close>

function
  parse_statement :: "parser_state \<Rightarrow> Stmt option \<times> parser_state" and
  parse_expr_stmt :: "parser_state \<Rightarrow> Stmt option \<times> parser_state" and
  parse_compound_stmt :: "ScopeFlags set \<Rightarrow> parser_state \<Rightarrow> Stmt option \<times> parser_state" and
  parse_compound_stmt_stmts ::
    "Stmt list \<Rightarrow> parser_state \<Rightarrow> Stmt list option \<times> parser_state" and
  parse_selection_stmt :: "parser_state \<Rightarrow> Stmt option \<times> parser_state" and
  parse_iteration_stmt :: "parser_state \<Rightarrow> Stmt option \<times> parser_state" and
  parse_return_stmt :: "parser_state \<Rightarrow> Stmt option \<times> parser_state" and
  parse_expression :: "parser_state \<Rightarrow> Expr option \<times> parser_state" and
  parse_simple_expression :: "parser_state \<Rightarrow> Expr option \<times> parser_state" and
  parse_additive_expression :: "parser_state \<Rightarrow> Expr option \<times> parser_state" and
  parse_additive_expression_loop :: "Expr \<Rightarrow> parser_state \<Rightarrow> Expr option \<times> parser_state" and
  parse_term :: "parser_state \<Rightarrow> Expr option \<times> parser_state" and
  parse_term_loop :: "Expr \<Rightarrow> parser_state \<Rightarrow> Expr option \<times> parser_state" and
  parse_factor :: "parser_state \<Rightarrow> Expr option \<times> parser_state" and
  parse_var :: "parser_state \<Rightarrow> Expr option \<times> parser_state" and
  parse_call :: "parser_state \<Rightarrow> Expr option \<times> parser_state" and
  parse_call_args :: "Word \<Rightarrow> Expr list \<Rightarrow> parser_state \<Rightarrow> Expr option \<times> parser_state"
where
  "parse_statement st =
     (if category (peek_word st) \<in> {Identifier, Number, OpenParen, Semicolon}
        then parse_expr_stmt st
      else if category (peek_word st) = OpenCurly
        then parse_compound_stmt {CompoundStmt} st
      else if category (peek_word st) = If_kw
        then parse_selection_stmt st
      else if category (peek_word st) = While
        then parse_iteration_stmt st
      else if category (peek_word st) = Return
        then parse_return_stmt st
      else (None, report parser_expected_statement [] st))"
| "parse_expr_stmt st =
     (case try_consume [Semicolon] st of
        (Some w, st1) \<Rightarrow> (Some act_on_null_stmt, st1)
      | (None, st1) \<Rightarrow>
     (case parse_expression st1 of
        (Some expr, st2) \<Rightarrow>
          (case expect_and_consume Semicolon st2 of
             (None, st3) \<Rightarrow> (None, st3)
           | (Some w, st3) \<Rightarrow> (Some (act_on_expr_stmt expr), st3))
      | (None, st2) \<Rightarrow> (None, st2)))"
| "parse_compound_stmt scope_flags st =
     (case expect_and_consume OpenCurly st of
        (None, st1) \<Rightarrow> (None, st1)
      | (Some w, st1) \<Rightarrow>
     (case parse_compound_stmt_decls [] (push_scope scope_flags st1) of
        (None, st2) \<Rightarrow> (None, pop_scope st2)
      | (Some ds, st2) \<Rightarrow>
     (case parse_compound_stmt_stmts [] st2 of
        (None, st3) \<Rightarrow> (None, pop_scope st3)
      | (Some stms, st3) \<Rightarrow>
          (Some (act_on_compound_stmt ds stms), pop_scope (consume st3)))))"
| "parse_compound_stmt_stmts stms st =
     (if category (peek_word st) \<noteq> CloseCurly
      then (case parse_statement st of
              (Some stmt, st1) \<Rightarrow> parse_compound_stmt_stmts (stms @ [stmt]) st1
            | (None, st1) \<Rightarrow> (None, st1))
      else (Some stms, st))"
| "parse_selection_stmt st =
     (case expect_and_consume If_kw st of
        (None, st1) \<Rightarrow> (None, st1)
      | (Some w1, st1) \<Rightarrow>
     (case expect_and_consume OpenParen st1 of
        (None, st2) \<Rightarrow> (None, st2)
      | (Some w2, st2) \<Rightarrow>
     (case parse_expression st2 of
        (None, st3) \<Rightarrow> (None, st3)
      | (Some expr, st3) \<Rightarrow>
     (case expect_and_consume CloseParen st3 of
        (None, st4) \<Rightarrow> (None, st4)
      | (Some w4, st4) \<Rightarrow>
     (case parse_statement st4 of
        (None, st5) \<Rightarrow> (None, st5)
      | (Some stmt1, st5) \<Rightarrow>
     (case try_consume [Else] st5 of
        (None, st6) \<Rightarrow> (Some (act_on_selection_stmt expr stmt1 None), st6)
      | (Some w6, st6) \<Rightarrow>
     (case parse_statement st6 of
        (Some stmt2, st7) \<Rightarrow> (Some (act_on_selection_stmt expr stmt1 (Some stmt2)), st7)
      | (None, st7) \<Rightarrow> (None, st7))))))))"
| "parse_iteration_stmt st =
     (case expect_and_consume While st of
        (None, st1) \<Rightarrow> (None, st1)
      | (Some w1, st1) \<Rightarrow>
     (case expect_and_consume OpenParen st1 of
        (None, st2) \<Rightarrow> (None, st2)
      | (Some w2, st2) \<Rightarrow>
     (case parse_expression st2 of
        (None, st3) \<Rightarrow> (None, st3)
      | (Some expr, st3) \<Rightarrow>
     (case expect_and_consume CloseParen st3 of
        (None, st4) \<Rightarrow> (None, st4)
      | (Some w4, st4) \<Rightarrow>
     (case parse_statement st4 of
        (Some stmt, st5) \<Rightarrow> (Some (act_on_iteration_stmt expr stmt), st5)
      | (None, st5) \<Rightarrow> (None, st5))))))"
| "parse_return_stmt st =
     (case expect_and_consume Return st of
        (None, st1) \<Rightarrow> (None, st1)
      | (Some return_word, st1) \<Rightarrow>
     (case try_consume [Semicolon] st1 of
        (Some w, st2) \<Rightarrow> (Some (act_on_return_stmt None return_word), st2)
      | (None, st2) \<Rightarrow>
     (case parse_expression st2 of
        (Some expr, st3) \<Rightarrow>
          (case expect_and_consume Semicolon st3 of
             (None, st4) \<Rightarrow> (None, st4)
           | (Some w, st4) \<Rightarrow> (Some (act_on_return_stmt (Some expr) return_word), st4))
      | (None, st3) \<Rightarrow> (None, st3))))"
| "parse_expression st =
     (case parse_simple_expression st of
        (Some expr1, st1) \<Rightarrow>
          (case as_var_expr expr1 of
             Some lvalue \<Rightarrow>
               (case try_consume [Assign] st1 of
                  (Some op_word, st2) \<Rightarrow>
                    (case parse_expression st2 of
                       (Some expr2, st3) \<Rightarrow> (Some (act_on_assign lvalue expr2 op_word), st3)
                     | (None, st3) \<Rightarrow> (None, st3))
                | (None, st2) \<Rightarrow> (Some expr1, st2))
           | None \<Rightarrow> (Some expr1, st1))
      | (None, st1) \<Rightarrow> (None, st1))"
| "parse_simple_expression st =
     (case parse_additive_expression st of
        (Some expr1, st1) \<Rightarrow>
          (case try_consume [LessEqual, Less, Greater, GreaterEqual, Equal, NotEqual] st1 of
             (Some op_word, st2) \<Rightarrow>
               (case parse_additive_expression st2 of
                  (Some expr2, st3) \<Rightarrow> (Some (act_on_binary_expr expr1 expr2 op_word), st3)
                | (None, st3) \<Rightarrow> (None, st3))
           | (None, st2) \<Rightarrow> (Some expr1, st2))
      | (None, st1) \<Rightarrow> (None, st1))"
| "parse_additive_expression st =
     (case parse_term st of
        (Some expr1, st1) \<Rightarrow> parse_additive_expression_loop expr1 st1
      | (None, st1) \<Rightarrow> (None, st1))"
| "parse_additive_expression_loop expr1 st =
     (case try_consume [Plus_op, Minus] st of
        (Some op_word, st1) \<Rightarrow>
          (case parse_term st1 of
             (Some expr2, st2) \<Rightarrow>
               parse_additive_expression_loop (act_on_binary_expr expr1 expr2 op_word) st2
           | (None, st2) \<Rightarrow> (None, st2))
      | (None, st1) \<Rightarrow> (Some expr1, st1))"
| "parse_term st =
     (case parse_factor st of
        (Some expr1, st1) \<Rightarrow> parse_term_loop expr1 st1
      | (None, st1) \<Rightarrow> (None, st1))"
| "parse_term_loop expr1 st =
     (case try_consume [Multiply, Divide] st of
        (Some op_word, st1) \<Rightarrow>
          (case parse_factor st1 of
             (Some expr2, st2) \<Rightarrow>
               parse_term_loop (act_on_binary_expr expr1 expr2 op_word) st2
           | (None, st2) \<Rightarrow> (None, st2))
      | (None, st1) \<Rightarrow> (Some expr1, st1))"
| "parse_factor st =
     (if category (peek_word st) = Number
        then parse_number st
      else if category (peek_word st) = OpenParen
        then (case parse_expression (consume st) of
                (None, st1) \<Rightarrow> (None, st1)
              | (Some expr1, st1) \<Rightarrow>
                  (case expect_and_consume CloseParen st1 of
                     (None, st2) \<Rightarrow> (None, st2)
                   | (Some w, st2) \<Rightarrow> (Some expr1, st2)))
      else if category (peek_word st) = Identifier
        then (if category (lookahead 1 st) = OpenParen then parse_call st else parse_var st)
      else (None, report parser_expected_expression [] st))"
| "parse_var st =
     (case expect_and_consume Identifier st of
        (None, st1) \<Rightarrow> (None, st1)
      | (Some id_word, st1) \<Rightarrow>
          (if category (peek_word st1) = OpenBracket
           then (case parse_expression (consume st1) of
                   (None, st2) \<Rightarrow> (None, st2)
                 | (Some index, st2) \<Rightarrow>
                     (case expect_and_consume CloseBracket st2 of
                        (None, st3) \<Rightarrow> (None, st3)
                      | (Some w, st3) \<Rightarrow> act_on_var id_word (Some index) st3))
           else act_on_var id_word None st1))"
| "parse_call st =
     (case expect_and_consume Identifier st of
        (None, st1) \<Rightarrow> (None, st1)
      | (Some id_word, st1) \<Rightarrow>
     (case expect_and_consume OpenParen st1 of
        (None, st2) \<Rightarrow> (None, st2)
      | (Some w, st2) \<Rightarrow>
          (if category (peek_word st2) \<noteq> CloseParen
           then (case parse_expression st2 of
                   (Some expr, st3) \<Rightarrow> parse_call_args id_word [expr] st3
                 | (None, st3) \<Rightarrow> (None, st3))
           else parse_call_args id_word [] st2)))"
| "parse_call_args id_word as st =
     (if category (peek_word st) \<noteq> CloseParen
      then (case expect_and_consume Comma st of
              (None, st1) \<Rightarrow> (None, st1)
            | (Some w, st1) \<Rightarrow>
                (case parse_expression st1 of
                   (Some expr, st2) \<Rightarrow> parse_call_args id_word (as @ [expr]) st2
                 | (None, st2) \<Rightarrow> (None, st2)))
      else (case expect_and_consume CloseParen st of
              (None, st1) \<Rightarrow> (None, st1)
            | (Some rparen, st1) \<Rightarrow> act_on_call id_word as st1))"
  by pat_completeness auto

text \<open>The state a production starts from, and the order in which one production calls
  another without consuming a word in between.\<close>

fun production_state where
  "production_state (Inl (Inl (Inl (Inl st)))) = st"
| "production_state (Inl (Inl (Inl (Inr st)))) = st"
| "production_state (Inl (Inl (Inr (Inl (scope_flags, st))))) = st"
| "production_state (Inl (Inl (Inr (Inr (stms, st))))) = st"
| "production_state (Inl (Inr (Inl (Inl st)))) = st"
| "production_state (Inl (Inr (Inl (Inr st)))) = st"
| "production_state (Inl (Inr (Inr (Inl st)))) = st"
| "production_state (Inl (Inr (Inr (Inr st)))) = st"
| "production_state (Inr (Inl (Inl (Inl st)))) = st"
| "production_state (Inr (Inl (Inl (Inr st)))) = st"
| "production_state (Inr (Inl (Inr (Inl (expr1, st))))) = st"
| "production_state (Inr (Inl (Inr (Inr st)))) = st"
| "production_state (Inr (Inr (Inl (Inl (expr1, st))))) = st"
| "production_state (Inr (Inr (Inl (Inr st)))) = st"
| "production_state (Inr (Inr (Inr (Inl st)))) = st"
| "production_state (Inr (Inr (Inr (Inr (Inl st))))) = st"
| "production_state (Inr (Inr (Inr (Inr (Inr (id_word, as, st)))))) = st"

fun production_rank :: "_ \<Rightarrow> nat" where
  "production_rank (Inl (Inl (Inl (Inl st)))) = 11"
| "production_rank (Inl (Inl (Inl (Inr st)))) = 10"
| "production_rank (Inl (Inl (Inr (Inl (scope_flags, st))))) = 10"
| "production_rank (Inl (Inl (Inr (Inr (stms, st))))) = 12"
| "production_rank (Inl (Inr (Inl (Inl st)))) = 10"
| "production_rank (Inl (Inr (Inl (Inr st)))) = 10"
| "production_rank (Inl (Inr (Inr (Inl st)))) = 10"
| "production_rank (Inl (Inr (Inr (Inr st)))) = 9"
| "production_rank (Inr (Inl (Inl (Inl st)))) = 8"
| "production_rank (Inr (Inl (Inl (Inr st)))) = 7"
| "production_rank (Inr (Inl (Inr (Inl (expr1, st))))) = 0"
| "production_rank (Inr (Inl (Inr (Inr st)))) = 6"
| "production_rank (Inr (Inr (Inl (Inl (expr1, st))))) = 0"
| "production_rank (Inr (Inr (Inl (Inr st)))) = 5"
| "production_rank (Inr (Inr (Inr (Inl st)))) = 4"
| "production_rank (Inr (Inr (Inr (Inr (Inl st))))) = 4"
| "production_rank (Inr (Inr (Inr (Inr (Inr (id_word, as, st)))))) = 0"


subsection \<open>The productions terminate\<close>

lemma parse_compound_stmt_decls_keeps_words:
  "keeps_words st (parse_compound_stmt_decls ds st)"
proof (induct ds st rule: parse_compound_stmt_decls.induct)
  case (1 ds st)
  show ?case
    apply (subst parse_compound_stmt_decls.simps)
    apply (rule consumes_intros parse_var_declaration_consumes [THEN consumes_keeps_words] 1
            | assumption | rule refl | simp (no_asm))+
    done
qed

abbreviation (input) parse_dom where
  "parse_dom \<equiv> parse_statement_parse_expr_stmt_parse_compound_stmt_parse_compound_stmt_stmts_parse_selection_stmt_parse_iteration_stmt_parse_return_stmt_parse_expression_parse_simple_expression_parse_additive_expression_parse_additive_expression_loop_parse_term_parse_term_loop_parse_factor_parse_var_parse_call_parse_call_args_dom"

lemmas parse_pinduct = parse_statement_parse_expr_stmt_parse_compound_stmt_parse_compound_stmt_stmts_parse_selection_stmt_parse_iteration_stmt_parse_return_stmt_parse_expression_parse_simple_expression_parse_additive_expression_parse_additive_expression_loop_parse_term_parse_term_loop_parse_factor_parse_var_parse_call_parse_call_args.pinduct

lemma parse_consumes_dom:
  "parse_dom (Inl (Inl (Inl (Inl st1)))) \<Longrightarrow> consumes st1 (parse_statement st1)"
  "parse_dom (Inl (Inl (Inl (Inr st2)))) \<Longrightarrow> consumes st2 (parse_expr_stmt st2)"
  "parse_dom (Inl (Inl (Inr (Inl (fl3, st3))))) \<Longrightarrow> consumes st3 (parse_compound_stmt fl3 st3)"
  "parse_dom (Inl (Inl (Inr (Inr (stms4, st4))))) \<Longrightarrow> keeps_words st4 (parse_compound_stmt_stmts stms4 st4)"
  "parse_dom (Inl (Inr (Inl (Inl st5)))) \<Longrightarrow> consumes st5 (parse_selection_stmt st5)"
  "parse_dom (Inl (Inr (Inl (Inr st6)))) \<Longrightarrow> consumes st6 (parse_iteration_stmt st6)"
  "parse_dom (Inl (Inr (Inr (Inl st7)))) \<Longrightarrow> consumes st7 (parse_return_stmt st7)"
  "parse_dom (Inl (Inr (Inr (Inr st8)))) \<Longrightarrow> consumes st8 (parse_expression st8)"
  "parse_dom (Inr (Inl (Inl (Inl st9)))) \<Longrightarrow> consumes st9 (parse_simple_expression st9)"
  "parse_dom (Inr (Inl (Inl (Inr st10)))) \<Longrightarrow> consumes st10 (parse_additive_expression st10)"
  "parse_dom (Inr (Inl (Inr (Inl (e11, st11))))) \<Longrightarrow> keeps_words st11 (parse_additive_expression_loop e11 st11)"
  "parse_dom (Inr (Inl (Inr (Inr st12)))) \<Longrightarrow> consumes st12 (parse_term st12)"
  "parse_dom (Inr (Inr (Inl (Inl (e13, st13))))) \<Longrightarrow> keeps_words st13 (parse_term_loop e13 st13)"
  "parse_dom (Inr (Inr (Inl (Inr st14)))) \<Longrightarrow> consumes st14 (parse_factor st14)"
  "parse_dom (Inr (Inr (Inr (Inl st15)))) \<Longrightarrow> consumes st15 (parse_var st15)"
  "parse_dom (Inr (Inr (Inr (Inr (Inl st16))))) \<Longrightarrow> consumes st16 (parse_call st16)"
  "parse_dom (Inr (Inr (Inr (Inr (Inr (i17, as17, st17)))))) \<Longrightarrow> keeps_words st17 (parse_call_args i17 as17 st17)"
proof (induct rule: parse_pinduct)
  case (1 st)
  show ?case
    by (subst parse_statement.psimps, fact 1(1))
       ((rule consumes_intros parse_number_consumes parse_compound_stmt_decls_keeps_words 1
            | (rule consumes_keeps_words, rule 1) | assumption | rule refl | simp (no_asm))+)
next
  case (2 st)
  show ?case
    by (subst parse_expr_stmt.psimps, fact 2(1))
       ((rule consumes_intros parse_number_consumes parse_compound_stmt_decls_keeps_words 2
            | (rule consumes_keeps_words, rule 2) | assumption | rule refl | simp (no_asm))+)
next
  case (3 fl st)
  show ?case
    by (subst parse_compound_stmt.psimps, fact 3(1))
       ((rule consumes_intros parse_number_consumes parse_compound_stmt_decls_keeps_words 3
            | (rule consumes_keeps_words, rule 3) | assumption | rule refl | simp (no_asm))+)
next
  case (4 stms st)
  show ?case
    by (subst parse_compound_stmt_stmts.psimps, fact 4(1))
       ((rule consumes_intros parse_number_consumes parse_compound_stmt_decls_keeps_words 4
            | (rule consumes_keeps_words, rule 4) | assumption | rule refl | simp (no_asm))+)
next
  case (5 st)
  show ?case
    by (subst parse_selection_stmt.psimps, fact 5(1))
       ((rule consumes_intros parse_number_consumes parse_compound_stmt_decls_keeps_words 5
            | (rule consumes_keeps_words, rule 5) | assumption | rule refl | simp (no_asm))+)
next
  case (6 st)
  show ?case
    by (subst parse_iteration_stmt.psimps, fact 6(1))
       ((rule consumes_intros parse_number_consumes parse_compound_stmt_decls_keeps_words 6
            | (rule consumes_keeps_words, rule 6) | assumption | rule refl | simp (no_asm))+)
next
  case (7 st)
  show ?case
    by (subst parse_return_stmt.psimps, fact 7(1))
       ((rule consumes_intros parse_number_consumes parse_compound_stmt_decls_keeps_words 7
            | (rule consumes_keeps_words, rule 7) | assumption | rule refl | simp (no_asm))+)
next
  case (8 st)
  show ?case
    by (subst parse_expression.psimps, fact 8(1))
       ((rule consumes_intros parse_number_consumes parse_compound_stmt_decls_keeps_words 8
            | (rule consumes_keeps_words, rule 8) | assumption | rule refl | simp (no_asm))+)
next
  case (9 st)
  show ?case
    by (subst parse_simple_expression.psimps, fact 9(1))
       ((rule consumes_intros parse_number_consumes parse_compound_stmt_decls_keeps_words 9
            | (rule consumes_keeps_words, rule 9) | assumption | rule refl | simp (no_asm))+)
next
  case (10 st)
  show ?case
    by (subst parse_additive_expression.psimps, fact 10(1))
       ((rule consumes_intros parse_number_consumes parse_compound_stmt_decls_keeps_words 10
            | (rule consumes_keeps_words, rule 10) | assumption | rule refl | simp (no_asm))+)
next
  case (11 e st)
  show ?case
    by (subst parse_additive_expression_loop.psimps, fact 11(1))
       ((rule consumes_intros parse_number_consumes parse_compound_stmt_decls_keeps_words 11
            | (rule consumes_keeps_words, rule 11) | assumption | rule refl | simp (no_asm))+)
next
  case (12 st)
  show ?case
    by (subst parse_term.psimps, fact 12(1))
       ((rule consumes_intros parse_number_consumes parse_compound_stmt_decls_keeps_words 12
            | (rule consumes_keeps_words, rule 12) | assumption | rule refl | simp (no_asm))+)
next
  case (13 e st)
  show ?case
    by (subst parse_term_loop.psimps, fact 13(1))
       ((rule consumes_intros parse_number_consumes parse_compound_stmt_decls_keeps_words 13
            | (rule consumes_keeps_words, rule 13) | assumption | rule refl | simp (no_asm))+)
next
  case (14 st)
  show ?case
    by (subst parse_factor.psimps, fact 14(1))
       ((rule consumes_intros parse_number_consumes parse_compound_stmt_decls_keeps_words 14
            | (rule consumes_keeps_words, rule 14) | assumption | rule refl | simp (no_asm))+)
next
  case (15 st)
  show ?case
    by (subst parse_var.psimps, fact 15(1))
       ((rule consumes_intros parse_number_consumes parse_compound_stmt_decls_keeps_words 15
            | (rule consumes_keeps_words, rule 15) | assumption | rule refl | simp (no_asm))+)
next
  case (16 st)
  show ?case
    by (subst parse_call.psimps, fact 16(1))
       ((rule consumes_intros parse_number_consumes parse_compound_stmt_decls_keeps_words 16
            | (rule consumes_keeps_words, rule 16) | assumption | rule refl | simp (no_asm))+)
next
  case (17 i as st)
  show ?case
    by (subst parse_call_args.psimps, fact 17(1))
       ((rule consumes_intros parse_number_consumes parse_compound_stmt_decls_keeps_words 17
            | (rule consumes_keeps_words, rule 17) | assumption | rule refl | simp (no_asm))+)
qed


lemma consumes_resultD:
  "(r, s) = p \<Longrightarrow> consumes st p \<Longrightarrow>
     length (words s) \<le> length (words st) \<and> (r \<noteq> None \<longrightarrow> length (words s) < length (words st))"
  by (auto simp: consumes_def dest: sym)

lemma keeps_words_resultD:
  "(r, s) = p \<Longrightarrow> keeps_words st p \<Longrightarrow> length (words s) \<le> length (words st)"
  by (auto simp: keeps_words_def dest: sym)

lemmas parse_resultD =
  consumes_resultD [OF _ expect_and_consume_consumes]
  consumes_resultD [OF _ try_consume_consumes]
  consumes_resultD [OF _ parse_consumes_dom(1)]
  consumes_resultD [OF _ parse_consumes_dom(8)]
  consumes_resultD [OF _ parse_consumes_dom(9)]
  consumes_resultD [OF _ parse_consumes_dom(10)]
  consumes_resultD [OF _ parse_consumes_dom(12)]
  consumes_resultD [OF _ parse_consumes_dom(14)]
  keeps_words_resultD [OF _ parse_compound_stmt_decls_keeps_words]

lemma peek_category_nonempty:
  "category (peek_word st) = c \<Longrightarrow> c \<noteq> Eof \<Longrightarrow> words st \<noteq> []"
  using peek_not_eof [of st] by simp

lemma parse_total: "All parse_dom"
  apply (relation "measures [\<lambda>x. length (words (production_state x)), production_rank]")
  apply (simp_all (no_asm_simp))
  apply (auto dest!: parse_resultD peek_category_nonempty)
  done

termination parse_statement
  by (rule parse_total)

lemmas parse_consumes = parse_consumes_dom [OF parse_total [THEN spec]]

declare parse_statement.simps [simp del] parse_expr_stmt.simps [simp del]
  parse_compound_stmt.simps [simp del] parse_compound_stmt_stmts.simps [simp del]
  parse_selection_stmt.simps [simp del] parse_iteration_stmt.simps [simp del]
  parse_return_stmt.simps [simp del] parse_expression.simps [simp del]
  parse_simple_expression.simps [simp del] parse_additive_expression.simps [simp del]
  parse_additive_expression_loop.simps [simp del] parse_term.simps [simp del]
  parse_term_loop.simps [simp del] parse_factor.simps [simp del] parse_var.simps [simp del]
  parse_call.simps [simp del] parse_call_args.simps [simp del]

subsection \<open>Declarations of functions and the program\<close>

text \<open>
  \<^verbatim>\<open>Parser::parse_fun_declaration\<close>, in four parts. \<open>parse_fun_declaration_params_loop\<close>
  is the \<^verbatim>\<open>while\<close> loop over the parameters after the first;
  \<open>parse_fun_declaration_params\<close> is the choice between a single \<^verbatim>\<open>void\<close> and a
  list of parameters; \<open>parse_fun_declaration_scope\<close> is the block in which the scoped
  object of flag \<^verbatim>\<open>FunParamsScope\<close> lives, and tells whether the block ran to its end
  or returned null; \<open>parse_fun_declaration\<close> is the production. The scoped object pops
  its frame on every way out of the block.
\<close>

function parse_fun_declaration_params_loop :: "nat \<Rightarrow> parser_state \<Rightarrow> bool \<times> parser_state" where
  "parse_fun_declaration_params_loop fun_decl st =
     (if category (peek_word st) \<noteq> CloseParen
      then (case expect_and_consume Comma st of
              (None, st1) \<Rightarrow> (False, st1)
            | (Some w, st1) \<Rightarrow>
                (case parse_param st1 of
                   (Some param, st2) \<Rightarrow>
                     parse_fun_declaration_params_loop fun_decl (add_param fun_decl param st2)
                 | (None, st2) \<Rightarrow> (False, st2)))
      else (True, st))"
  by pat_completeness auto
termination
proof (relation "measure (\<lambda>(fun_decl, st). length (words st))")
  show "wf (measure (\<lambda>(fun_decl, st). length (words st)))"
    by simp
next
  fix fun_decl :: nat and st x st1 w y st2 param
  assume "(x, st1) = expect_and_consume Comma st" and "x = Some w"
    and "(y, st2) = parse_param st1" and "y = Some param"
  then have "length (words st1) < length (words st)" and "length (words st2) < length (words st1)"
    using expect_and_consume_consumes [of Comma st] parse_param_consumes [of st1]
    by (auto dest!: consumes_resultD)
  then show "((fun_decl, add_param fun_decl param st2), (fun_decl, st))
               \<in> measure (\<lambda>(fun_decl, st). length (words st))"
    by simp
qed

declare parse_fun_declaration_params_loop.simps [simp del]

definition parse_fun_declaration_params :: "nat \<Rightarrow> parser_state \<Rightarrow> bool \<times> parser_state" where
  "parse_fun_declaration_params fun_decl st =
     (if category (lookahead 0 st) = Void \<and> category (lookahead 1 st) = CloseParen
      then (True, consume st)
      else (case parse_param st of
              (Some param, st1) \<Rightarrow>
                parse_fun_declaration_params_loop fun_decl (add_param fun_decl param st1)
            | (None, st1) \<Rightarrow> (False, st1)))"

definition parse_fun_declaration_scope :: "nat \<Rightarrow> parser_state \<Rightarrow> bool \<times> parser_state" where
  "parse_fun_declaration_scope fun_decl st =
     (case parse_fun_declaration_params fun_decl st of
        (False, st1) \<Rightarrow> (False, st1)
      | (True, st1) \<Rightarrow>
     (case expect_and_consume CloseParen st1 of
        (None, st2) \<Rightarrow> (False, st2)
      | (Some w, st2) \<Rightarrow>
     (case parse_compound_stmt {CompoundStmt, FunScope} st2 of
        (None, st3) \<Rightarrow> (False, st3)
      | (Some comp_stmt, st3) \<Rightarrow> (True, set_body fun_decl comp_stmt st3))))"

definition parse_fun_declaration :: "parser_state \<Rightarrow> nat option \<times> parser_state" where
  "parse_fun_declaration st =
     (case expect_and_consume_type st of
        (None, st1) \<Rightarrow> (None, st1)
      | (Some retn_word, st1) \<Rightarrow>
     (case expect_and_consume Identifier st1 of
        (None, st2) \<Rightarrow> (None, st2)
      | (Some id_word, st2) \<Rightarrow>
     (case expect_and_consume OpenParen st2 of
        (None, st3) \<Rightarrow> (None, st3)
      | (Some w, st3) \<Rightarrow>
     (case act_on_fun_decl_start retn_word id_word st3 of
        (fun_decl, st4) \<Rightarrow>
     (case parse_fun_declaration_scope fun_decl (push_scope {FunParamsScope} st4) of
        (False, st5) \<Rightarrow> (None, pop_scope st5)
      | (True, st5) \<Rightarrow> act_on_fun_decl_end fun_decl (pop_scope st5))))))"

text \<open>\<^verbatim>\<open>Parser::parse_declaration\<close>: either node is returned as a declaration.\<close>

definition parse_declaration :: "parser_state \<Rightarrow> Decl option \<times> parser_state" where
  "parse_declaration st =
     (if category (lookahead 2 st) = OpenParen
      then (case parse_fun_declaration st of (r, st1) \<Rightarrow> (map_option FunDecl r, st1))
      else (case parse_var_declaration st of (r, st1) \<Rightarrow> (map_option VarDecl r, st1)))"

lemma words_act_on_fun_decl_start [simp]:
  "words (snd (act_on_fun_decl_start t i st)) = words st"
  by (simp add: act_on_fun_decl_start_def Let_def)

lemma keeps_words_bool:
  assumes "keeps_words s0 p" and "length (words s0) \<le> length (words st)"
    and "\<And>s. (True, s) = p \<Longrightarrow> keeps_words s (g s)"
    and "\<And>s. (False, s) = p \<Longrightarrow> keeps_words s (h s)"
  shows "keeps_words st (case p of (False, s) \<Rightarrow> h s | (True, s) \<Rightarrow> g s)"
proof (cases p)
  case (Pair b s)
  with assms(1,2) assms(3) [of s] assms(4) [of s] show ?thesis
    by (cases b) (auto simp: keeps_words_def)
qed

lemma parse_fun_declaration_params_loop_keeps_words:
  "keeps_words st (parse_fun_declaration_params_loop fd st)"
proof (induct fd st rule: parse_fun_declaration_params_loop.induct)
  case (1 fd st)
  have a: "\<And>r s. keeps_words (add_param fd r s) (parse_fun_declaration_params_loop fd (add_param fd r s))
             \<Longrightarrow> keeps_words s (parse_fun_declaration_params_loop fd (add_param fd r s))"
    by (simp add: keeps_words_def)
  show ?case
    by (subst parse_fun_declaration_params_loop.simps)
       ((rule consumes_intros parse_param_consumes [THEN consumes_keeps_words] | (rule a, rule 1)
          | assumption | rule refl | simp (no_asm))+)
qed

lemma parse_fun_declaration_params_keeps_words:
  "keeps_words st (parse_fun_declaration_params fd st)"
proof -
  have a: "\<And>r s. keeps_words s (parse_fun_declaration_params_loop fd (add_param fd r s))"
    using parse_fun_declaration_params_loop_keeps_words [of "add_param fd r s" fd for r s]
    by (simp add: keeps_words_def)
  show ?thesis
    unfolding parse_fun_declaration_params_def
    by (rule consumes_intros parse_param_consumes [THEN consumes_keeps_words] a
          | simp (no_asm))+
qed

lemma parse_fun_declaration_scope_keeps_words:
  "keeps_words st (parse_fun_declaration_scope fd st)"
  unfolding parse_fun_declaration_scope_def
  by (rule keeps_words_bool consumes_intros parse_fun_declaration_params_keeps_words
        parse_consumes(3) [THEN consumes_keeps_words] | simp (no_asm))+

lemma parse_fun_declaration_consumes: "consumes st (parse_fun_declaration st)"
proof -
  have a: "keeps_words s (case act_on_fun_decl_start t i s of
             (fun_decl, st4) \<Rightarrow>
               (case parse_fun_declaration_scope fun_decl (push_scope {FunParamsScope} st4) of
                  (False, st5) \<Rightarrow> (None, pop_scope st5)
                | (True, st5) \<Rightarrow> act_on_fun_decl_end fun_decl (pop_scope st5)))" for s t i
    using parse_fun_declaration_scope_keeps_words
            [of "push_scope {FunParamsScope} (snd (act_on_fun_decl_start t i s))"
                "fst (act_on_fun_decl_start t i s)"]
    by (auto simp: keeps_words_def act_on_fun_decl_end_def split: prod.splits bool.splits)
  show ?thesis
    unfolding parse_fun_declaration_def
    by (rule consumes_intros expect_and_consume_type_consumes a | simp (no_asm))+
qed

lemma parse_declaration_consumes: "consumes st (parse_declaration st)"
  using parse_fun_declaration_consumes [of st] parse_var_declaration_consumes [of st]
  by (auto simp: parse_declaration_def consumes_def split: prod.splits)

text \<open>
  \<^verbatim>\<open>Parser::parse_program\<close>. \<open>parse_program_decls\<close> is the \<^verbatim>\<open>do\<close> loop: it parses a
  declaration, adds it to the program, and goes round again unless the next word is the
  end of the input.
\<close>

function parse_program_decls ::
  "ASTProgram \<Rightarrow> parser_state \<Rightarrow> ASTProgram option \<times> parser_state" where
  "parse_program_decls program st =
     (case parse_declaration st of
        (Some decl, st1) \<Rightarrow>
          (if category (peek_word st1) \<noteq> Eof
           then parse_program_decls (act_on_top_level_decl program decl) st1
           else (Some (act_on_top_level_decl program decl), st1))
      | (None, st1) \<Rightarrow> (None, st1))"
  by pat_completeness auto
termination
proof (relation "measure (\<lambda>(program, st). length (words st))")
  show "wf (measure (\<lambda>(program, st). length (words st)))"
    by simp
next
  fix program :: ASTProgram and st x st1 decl
  assume "(x, st1) = parse_declaration st" and "x = Some decl"
  then have "length (words st1) < length (words st)"
    using parse_declaration_consumes [of st] by (auto dest!: consumes_resultD)
  then show "((act_on_top_level_decl program decl, st1), (program, st))
               \<in> measure (\<lambda>(program, st). length (words st))"
    by simp
qed

declare parse_program_decls.simps [simp del]

definition parse_program :: "parser_state \<Rightarrow> ASTProgram option \<times> parser_state" where
  "parse_program st =
     (case act_on_program_start st of
        (program, st1) \<Rightarrow>
          (case parse_program_decls program st1 of
             (Some program', st2) \<Rightarrow> act_on_program_end program' st2
           | (None, st2) \<Rightarrow> (None, st2)))"


section \<open>Running the parser\<close>

text \<open>The equations and definitions by which a parse of given words is computed.\<close>

lemmas parse_simps =
  parse_statement.simps parse_expr_stmt.simps parse_compound_stmt.simps
  parse_compound_stmt_stmts.simps parse_selection_stmt.simps parse_iteration_stmt.simps
  parse_return_stmt.simps parse_expression.simps parse_simple_expression.simps
  parse_additive_expression.simps parse_additive_expression_loop.simps parse_term.simps
  parse_term_loop.simps parse_factor.simps parse_var.simps parse_call.simps
  parse_call_args.simps parse_compound_stmt_decls.simps
  parse_fun_declaration_params_loop.simps parse_program_decls.simps

lemmas parse_defs =
  initial_state_def parse_program_def
  parse_declaration_def parse_fun_declaration_def parse_fun_declaration_scope_def
  parse_fun_declaration_params_def parse_var_declaration_def parse_var_declaration_rest_def
  parse_param_def parse_number_def expect_and_consume_type_def expect_and_consume_def
  try_consume_def consume_def peek_word_def lookahead_def eof_word_def report_def

lemmas sema_defs =
  push_scope_def pop_scope_def install_def declared_in_current_def declare_variable_def
  word_type_def act_on_program_start_def act_on_program_end_def act_on_top_level_decl_def
  act_on_var_decl_def act_on_param_decl_def act_on_fun_decl_start_def add_param_def
  set_body_def act_on_fun_decl_end_def act_on_number_def act_on_var_def act_on_call_def
  act_on_assign_def act_on_binary_expr_def act_on_null_stmt_def act_on_expr_stmt_def
  act_on_compound_stmt_def act_on_selection_stmt_def act_on_iteration_stmt_def
  act_on_return_stmt_def number_value_def decimal_value_def digit_value_def Let_def

text \<open>A word of a given category and lexeme, as the constructor of \<^verbatim>\<open>Word\<close> makes it.\<close>

definition mk_word :: "Category \<Rightarrow> string \<Rightarrow> Word" where
  "mk_word c s = \<lparr>category = c, lexeme = s\<rparr>"


section \<open>Diagnostics and null results\<close>

text \<open>
  The diagnostics by which the parser says what it expected:
  \<^verbatim>\<open>parser_expected_token\<close>, \<^verbatim>\<open>parser_expected_type\<close>, \<^verbatim>\<open>parser_expected_expression\<close> and
  \<^verbatim>\<open>parser_expected_statement\<close>.
\<close>

definition parser_expected :: "Diag \<Rightarrow> bool" where
  "parser_expected c =
     (c = parser_expected_token \<or> c = parser_expected_type \<or>
      c = parser_expected_expression \<or> c = parser_expected_statement)"

definition expected_diags :: "parser_state \<Rightarrow> Diagnostic list" where
  "expected_diags st = filter (\<lambda>d. parser_expected (code d)) (diags st)"

text \<open>
  Diagnostics are only ever added at the end: \<open>emits st st'\<close> says that \<open>st'\<close> holds the
  diagnostics of \<open>st\<close> and maybe more. A production is \<open>quiet_if_ok\<close> when it adds none
  of the four above unless it returns null.
\<close>

definition emits :: "parser_state \<Rightarrow> parser_state \<Rightarrow> bool" where
  "emits st st' = (\<exists>ds. diags st' = diags st @ ds)"

definition quiet_if_ok :: "parser_state \<Rightarrow> 'a option \<times> parser_state \<Rightarrow> bool" where
  "quiet_if_ok st res =
     (emits st (snd res) \<and> (fst res \<noteq> None \<longrightarrow> expected_diags (snd res) = expected_diags st))"

definition fails :: "parser_state \<Rightarrow> 'a option \<times> parser_state \<Rightarrow> bool" where
  "fails st res = (emits st (snd res) \<and> fst res = None)"

lemma diags_consume [simp]: "diags (consume st) = diags st"
  by (simp add: consume_def)

lemma diags_push_scope [simp]: "diags (push_scope fl st) = diags st"
  by (simp add: push_scope_def)

lemma diags_pop_scope [simp]: "diags (pop_scope st) = diags st"
  by (simp add: pop_scope_def)

lemma diags_install [simp]: "diags (install n d st) = diags st"
  by (simp add: install_def split: list.splits)

lemma diags_add_param [simp]: "diags (add_param fd p st) = diags st"
  by (simp add: add_param_def)

lemma diags_set_body [simp]: "diags (set_body fd b st) = diags st"
  by (simp add: set_body_def)

lemma diags_report [simp]: "diags (report c as st) = diags st @ [\<lparr>code = c, args = as\<rparr>]"
  by (simp add: report_def)

lemma emits_refl [simp]: "emits st st"
  by (simp add: emits_def)

lemma emits_same: "diags st' = diags st \<Longrightarrow> emits st st'"
  by (simp add: emits_def)

lemma emits_report [simp]: "emits st (report c as st)"
  by (simp add: emits_def)

lemma emits_trans: "emits st st1 \<Longrightarrow> emits st1 st2 \<Longrightarrow> emits st st2"
  by (auto simp: emits_def)

lemma expected_diags_same: "diags st' = diags st \<Longrightarrow> expected_diags st' = expected_diags st"
  by (simp add: expected_diags_def)

lemma quiet_if_ok_None [simp]: "quiet_if_ok st (None, st') = emits st st'"
  by (simp add: quiet_if_ok_def)

lemma fails_None [simp]: "fails st (None, st') = emits st st'"
  by (simp add: fails_def)

lemma quiet_if_ok_same: "diags st' = diags st \<Longrightarrow> quiet_if_ok st (r, st')"
  by (simp add: quiet_if_ok_def emits_same expected_diags_def)

lemma quiet_if_ok_seq:
  assumes "quiet_if_ok s0 p" and "diags s0 = diags st"
    and "\<And>x s. (Some x, s) = p \<Longrightarrow> quiet_if_ok s (g x s)"
    and "\<And>s. (None, s) = p \<Longrightarrow> fails s (h s)"
  shows "quiet_if_ok st (case p of (None, s) \<Rightarrow> h s | (Some x, s) \<Rightarrow> g x s)"
proof (cases p)
  case (Pair r s)
  have e0: "emits st s0" and d0: "expected_diags s0 = expected_diags st"
    using assms(2) by (simp_all add: emits_same expected_diags_def)
  have e1: "emits s0 s"
    using assms(1) Pair by (simp add: quiet_if_ok_def)
  show ?thesis
  proof (cases r)
    case None
    then have "fails s (h s)"
      using assms(4) [of s] Pair by simp
    then have "emits s (snd (h s))" and "fst (h s) = None"
      by (simp_all add: fails_def)
    with e0 e1 have "emits st (snd (h s))" and "fst (h s) = None"
      by (blast intro: emits_trans)+
    with Pair None show ?thesis
      by (simp add: quiet_if_ok_def)
  next
    case (Some x)
    then have d1: "expected_diags s = expected_diags s0"
      using assms(1) Pair by (simp add: quiet_if_ok_def)
    have "quiet_if_ok s (g x s)"
      using assms(3) [of x s] Pair Some by simp
    then have "emits s (snd (g x s))"
      and "fst (g x s) \<noteq> None \<longrightarrow> expected_diags (snd (g x s)) = expected_diags s"
      by (simp_all add: quiet_if_ok_def)
    with e0 e1 d0 d1 have "emits st (snd (g x s))"
      and "fst (g x s) \<noteq> None \<longrightarrow> expected_diags (snd (g x s)) = expected_diags st"
      by (blast intro: emits_trans, simp)
    with Pair Some show ?thesis
      by (simp add: quiet_if_ok_def)
  qed
qed

lemma quiet_if_ok_try_consume:
  assumes "\<And>w s. (Some w, s) = try_consume cats st \<Longrightarrow> quiet_if_ok s (g w s)"
    and "\<And>s. (None, s) = try_consume cats st \<Longrightarrow> quiet_if_ok s (h s)"
  shows "quiet_if_ok st (case try_consume cats st of (None, s) \<Rightarrow> h s | (Some w, s) \<Rightarrow> g w s)"
proof (cases "category (peek_word st) \<in> set cats")
  case True
  then have t: "try_consume cats st = (Some (peek_word st), consume st)"
    by (simp add: try_consume_def)
  have e0: "emits st (consume st)" and d0: "expected_diags (consume st) = expected_diags st"
    by (simp_all add: emits_same expected_diags_def)
  have "quiet_if_ok (consume st) (g (peek_word st) (consume st))"
    using assms(1) [of "peek_word st" "consume st"] t by simp
  then have "emits (consume st) (snd (g (peek_word st) (consume st)))"
    and "fst (g (peek_word st) (consume st)) \<noteq> None \<longrightarrow>
           expected_diags (snd (g (peek_word st) (consume st))) = expected_diags (consume st)"
    by (simp_all add: quiet_if_ok_def)
  with e0 d0 have "emits st (snd (g (peek_word st) (consume st)))"
    and "fst (g (peek_word st) (consume st)) \<noteq> None \<longrightarrow>
           expected_diags (snd (g (peek_word st) (consume st))) = expected_diags st"
    by (blast intro: emits_trans, simp)
  with t show ?thesis
    by (simp add: quiet_if_ok_def)
next
  case False
  then have t: "try_consume cats st = (None, st)"
    by (simp add: try_consume_def)
  with assms(2) [of st] show ?thesis
    by simp
qed

lemma quiet_if_ok_if:
  "(c \<Longrightarrow> quiet_if_ok st a) \<Longrightarrow> (\<not> c \<Longrightarrow> quiet_if_ok st b) \<Longrightarrow>
     quiet_if_ok st (if c then a else b)"
  by simp

lemma quiet_if_ok_option:
  "(\<And>x. r = Some x \<Longrightarrow> quiet_if_ok st (g x)) \<Longrightarrow> (r = None \<Longrightarrow> quiet_if_ok st h) \<Longrightarrow>
     quiet_if_ok st (case r of None \<Rightarrow> h | Some x \<Rightarrow> g x)"
  by (cases r) auto

lemma expect_and_consume_quiet: "quiet_if_ok st (expect_and_consume c st)"
  by (simp add: expect_and_consume_def try_consume_def quiet_if_ok_def emits_same
        expected_diags_def)

lemma expected_diags_report:
  "expected_diags (report c as st) =
     expected_diags st @ (if parser_expected c then [\<lparr>code = c, args = as\<rparr>] else [])"
  by (simp add: expected_diags_def)

lemma act_on_number_quiet: "quiet_if_ok st (act_on_number w st)"
  by (simp add: act_on_number_def quiet_if_ok_def expected_diags_report parser_expected_def)

lemma diags_declare_variable:
  "emits st (declare_variable t i d st) \<and>
   expected_diags (declare_variable t i d st) = expected_diags st"
  by (simp add: declare_variable_def emits_same expected_diags_report parser_expected_def)
     (simp add: expected_diags_def)

lemma act_on_var_decl_quiet: "quiet_if_ok st (act_on_var_decl t i n st)"
  by (simp add: act_on_var_decl_def Let_def quiet_if_ok_def diags_declare_variable)

lemma act_on_param_decl_quiet: "quiet_if_ok st (act_on_param_decl t i a st)"
  by (simp add: act_on_param_decl_def Let_def quiet_if_ok_def diags_declare_variable)

lemma act_on_var_quiet: "quiet_if_ok st (act_on_var i x st)"
  by (simp add: act_on_var_def quiet_if_ok_def expected_diags_report parser_expected_def
           split: option.splits Decl.splits)

lemma act_on_call_quiet: "quiet_if_ok st (act_on_call i as st)"
  by (simp add: act_on_call_def quiet_if_ok_def expected_diags_report parser_expected_def
           split: option.splits Decl.splits)

lemmas quiet_intros =
  quiet_if_ok_try_consume quiet_if_ok_seq quiet_if_ok_if quiet_if_ok_option
  expect_and_consume_quiet act_on_number_quiet act_on_var_decl_quiet act_on_param_decl_quiet
  act_on_var_quiet act_on_call_quiet

lemmas quiet_simps =
  quiet_if_ok_None fails_None emits_refl emits_report emits_same quiet_if_ok_same
  diags_consume diags_push_scope diags_pop_scope

lemma parse_number_quiet: "quiet_if_ok st (parse_number st)"
  unfolding parse_number_def
  by (rule quiet_intros | simp (no_asm) only: quiet_simps)+

lemma expect_and_consume_type_quiet: "quiet_if_ok st (expect_and_consume_type st)"
  by (simp add: expect_and_consume_type_def try_consume_def quiet_if_ok_def emits_same
        expected_diags_def)

lemma parse_var_declaration_rest_quiet: "quiet_if_ok st (parse_var_declaration_rest t i n st)"
  unfolding parse_var_declaration_rest_def
  by (rule quiet_intros | simp (no_asm) only: quiet_simps)+

lemma parse_var_declaration_quiet: "quiet_if_ok st (parse_var_declaration st)"
  unfolding parse_var_declaration_def
  by (rule quiet_intros expect_and_consume_type_quiet parse_number_quiet
        parse_var_declaration_rest_quiet | simp (no_asm) only: quiet_simps)+

lemma parse_param_quiet: "quiet_if_ok st (parse_param st)"
  unfolding parse_param_def
  by (rule quiet_intros expect_and_consume_type_quiet | simp (no_asm) only: quiet_simps)+

lemma parse_compound_stmt_decls_quiet: "quiet_if_ok st (parse_compound_stmt_decls ds st)"
proof (induct ds st rule: parse_compound_stmt_decls.induct)
  case (1 ds st)
  show ?case
    by (subst parse_compound_stmt_decls.simps)
       ((rule quiet_intros parse_var_declaration_quiet 1
          | assumption | rule refl | simp (no_asm) only: quiet_simps)+)
qed

lemmas parse_induct = parse_statement_parse_expr_stmt_parse_compound_stmt_parse_compound_stmt_stmts_parse_selection_stmt_parse_iteration_stmt_parse_return_stmt_parse_expression_parse_simple_expression_parse_additive_expression_parse_additive_expression_loop_parse_term_parse_term_loop_parse_factor_parse_var_parse_call_parse_call_args.induct

lemma parse_quiet:
  "quiet_if_ok st1 (parse_statement st1)"
  "quiet_if_ok st2 (parse_expr_stmt st2)"
  "quiet_if_ok st3 (parse_compound_stmt fl3 st3)"
  "quiet_if_ok st4 (parse_compound_stmt_stmts stms4 st4)"
  "quiet_if_ok st5 (parse_selection_stmt st5)"
  "quiet_if_ok st6 (parse_iteration_stmt st6)"
  "quiet_if_ok st7 (parse_return_stmt st7)"
  "quiet_if_ok st8 (parse_expression st8)"
  "quiet_if_ok st9 (parse_simple_expression st9)"
  "quiet_if_ok st10 (parse_additive_expression st10)"
  "quiet_if_ok st11 (parse_additive_expression_loop e11 st11)"
  "quiet_if_ok st12 (parse_term st12)"
  "quiet_if_ok st13 (parse_term_loop e13 st13)"
  "quiet_if_ok st14 (parse_factor st14)"
  "quiet_if_ok st15 (parse_var st15)"
  "quiet_if_ok st16 (parse_call st16)"
  "quiet_if_ok st17 (parse_call_args i17 as17 st17)"
proof (induct rule: parse_induct)
  case (1 st)
  show ?case
    by (subst parse_statement.simps)
       ((rule quiet_intros parse_number_quiet parse_compound_stmt_decls_quiet 1
          | assumption | rule refl | simp (no_asm) only: quiet_simps)+)
next
  case (2 st)
  show ?case
    by (subst parse_expr_stmt.simps)
       ((rule quiet_intros parse_number_quiet parse_compound_stmt_decls_quiet 2
          | assumption | rule refl | simp (no_asm) only: quiet_simps)+)
next
  case (3 fl st)
  show ?case
    by (subst parse_compound_stmt.simps)
       ((rule quiet_intros parse_number_quiet parse_compound_stmt_decls_quiet 3
          | assumption | rule refl | simp (no_asm) only: quiet_simps)+)
next
  case (4 stms st)
  show ?case
    by (subst parse_compound_stmt_stmts.simps)
       ((rule quiet_intros parse_number_quiet parse_compound_stmt_decls_quiet 4
          | assumption | rule refl | simp (no_asm) only: quiet_simps)+)
next
  case (5 st)
  show ?case
    by (subst parse_selection_stmt.simps)
       ((rule quiet_intros parse_number_quiet parse_compound_stmt_decls_quiet 5
          | assumption | rule refl | simp (no_asm) only: quiet_simps)+)
next
  case (6 st)
  show ?case
    by (subst parse_iteration_stmt.simps)
       ((rule quiet_intros parse_number_quiet parse_compound_stmt_decls_quiet 6
          | assumption | rule refl | simp (no_asm) only: quiet_simps)+)
next
  case (7 st)
  show ?case
    by (subst parse_return_stmt.simps)
       ((rule quiet_intros parse_number_quiet parse_compound_stmt_decls_quiet 7
          | assumption | rule refl | simp (no_asm) only: quiet_simps)+)
next
  case (8 st)
  show ?case
    by (subst parse_expression.simps)
       ((rule quiet_intros parse_number_quiet parse_compound_stmt_decls_quiet 8
          | assumption | rule refl | simp (no_asm) only: quiet_simps)+)
next
  case (9 st)
  show ?case
    by (subst parse_simple_expression.simps)
       ((rule quiet_intros parse_number_quiet parse_compound_stmt_decls_quiet 9
          | assumption | rule refl | simp (no_asm) only: quiet_simps)+)
next
  case (10 st)
  show ?case
    by (subst parse_additive_expression.simps)
       ((rule quiet_intros parse_number_quiet parse_compound_stmt_decls_quiet 10
          | assumption | rule refl | simp (no_asm) only: quiet_simps)+)
next
  case (11 e st)
  show ?case
    by (subst parse_additive_expression_loop.simps)
       ((rule quiet_intros parse_number_quiet parse_compound_stmt_decls_quiet 11
          | assumption | rule refl | simp (no_asm) only: quiet_simps)+)
next
  case (12 st)
  show ?case
    by (subst parse_term.simps)
       ((rule quiet_intros parse_number_quiet parse_compound_stmt_decls_quiet 12
          | assumption | rule refl | simp (no_asm) only: quiet_simps)+)
next
  case (13 e st)
  show ?case
    by (subst parse_term_loop.simps)
       ((rule quiet_intros parse_number_quiet parse_compound_stmt_decls_quiet 13
          | assumption | rule refl | simp (no_asm) only: quiet_simps)+)
next
  case (14 st)
  show ?case
    by (subst parse_factor.simps)
       ((rule quiet_intros parse_number_quiet parse_compound_stmt_decls_quiet 14
          | assumption | rule refl | simp (no_asm) only: quiet_simps)+)
next
  case (15 st)
  show ?case
    by (subst parse_var.simps)
       ((rule quiet_intros parse_number_quiet parse_compound_stmt_decls_quiet 15
          | assumption | rule refl | simp (no_asm) only: quiet_simps)+)
next
  case (16 st)
  show ?case
    by (subst parse_call.simps)
       ((rule quiet_intros parse_number_quiet parse_compound_stmt_decls_quiet 16
          | assumption | rule refl | simp (no_asm) only: quiet_simps)+)
next
  case (17 i as st)
  show ?case
    by (subst parse_call_args.simps)
       ((rule quiet_intros parse_number_quiet parse_compound_stmt_decls_quiet 17
          | assumption | rule refl | simp (no_asm) only: quiet_simps)+)
qed

text \<open>The parts of \<^verbatim>\<open>parse_fun_declaration\<close> that tell whether they ran to their end.\<close>

definition quiet_if_true :: "parser_state \<Rightarrow> bool \<times> parser_state \<Rightarrow> bool" where
  "quiet_if_true st res =
     (emits st (snd res) \<and> (fst res \<longrightarrow> expected_diags (snd res) = expected_diags st))"

lemma quiet_if_okD:
  "quiet_if_ok st p \<Longrightarrow> p = (r, st1) \<Longrightarrow>
     emits st st1 \<and> (r \<noteq> None \<longrightarrow> expected_diags st1 = expected_diags st)"
  by (simp add: quiet_if_ok_def)

lemma quiet_if_trueD:
  "quiet_if_true st p \<Longrightarrow> p = (b, st1) \<Longrightarrow>
     emits st st1 \<and> (b \<longrightarrow> expected_diags st1 = expected_diags st)"
  by (simp add: quiet_if_true_def)

lemma quiet_if_true_False [simp]: "quiet_if_true st (False, st1) = emits st st1"
  by (simp add: quiet_if_true_def)

lemma quiet_if_true_shift:
  "quiet_if_true s0 p \<Longrightarrow> diags s0 = diags st \<Longrightarrow> quiet_if_true st p"
  by (simp add: quiet_if_true_def emits_def expected_diags_def)

lemma parse_fun_declaration_params_loop_quiet:
  "quiet_if_true st (parse_fun_declaration_params_loop fd st)"
proof (induct fd st rule: parse_fun_declaration_params_loop.induct)
  case (1 fd st)
  show ?case
  proof (cases "category (peek_word st) \<noteq> CloseParen")
    case False
    then show ?thesis
      by (subst parse_fun_declaration_params_loop.simps) (simp add: quiet_if_true_def)
  next
    case True
    obtain r1 s1 where e1: "expect_and_consume Comma st = (r1, s1)"
      by (cases "expect_and_consume Comma st")
    note q1 = quiet_if_okD [OF expect_and_consume_quiet e1]
    show ?thesis
    proof (cases r1)
      case None
      with True e1 q1 show ?thesis
        by (subst parse_fun_declaration_params_loop.simps) simp
    next
      case (Some w)
      obtain r2 s2 where e2: "parse_param s1 = (r2, s2)"
        by (cases "parse_param s1")
      note q2 = quiet_if_okD [OF parse_param_quiet e2]
      show ?thesis
      proof (cases r2)
        case None
        with True e1 Some e2 q1 q2 show ?thesis
          by (subst parse_fun_declaration_params_loop.simps) (auto intro: emits_trans)
      next
        case p: (Some param)
        have "quiet_if_true (add_param fd param s2)
                (parse_fun_declaration_params_loop fd (add_param fd param s2))"
          using 1 [OF True e1 [symmetric] Some e2 [symmetric] p] .
        then have "quiet_if_true s2 (parse_fun_declaration_params_loop fd (add_param fd param s2))"
          by (rule quiet_if_true_shift) simp
        with q1 q2 Some p
        have "quiet_if_true st (parse_fun_declaration_params_loop fd (add_param fd param s2))"
          by (auto simp: quiet_if_true_def intro: emits_trans)
        with True e1 Some e2 p show ?thesis
          by (subst parse_fun_declaration_params_loop.simps) simp
      qed
    qed
  qed
qed

lemma parse_fun_declaration_params_quiet:
  "quiet_if_true st (parse_fun_declaration_params fd st)"
proof (cases "category (lookahead 0 st) = Void \<and> category (lookahead 1 st) = CloseParen")
  case True
  have "parse_fun_declaration_params fd st = (True, consume st)"
    unfolding parse_fun_declaration_params_def by (rule if_P [OF True])
  then show ?thesis
    by (simp add: quiet_if_true_def emits_same expected_diags_def)
next
  case False
  have eq: "parse_fun_declaration_params fd st =
      (case parse_param st of
         (Some param, st1) \<Rightarrow>
           parse_fun_declaration_params_loop fd (add_param fd param st1)
       | (None, st1) \<Rightarrow> (False, st1))"
    unfolding parse_fun_declaration_params_def by (rule if_not_P [OF False])
  obtain r s where e: "parse_param st = (r, s)"
    by (cases "parse_param st")
  note q = quiet_if_okD [OF parse_param_quiet e]
  show ?thesis
  proof (cases r)
    case None
    with e q show ?thesis
      by (simp add: eq)
  next
    case (Some param)
    have "quiet_if_true s (parse_fun_declaration_params_loop fd (add_param fd param s))"
      by (rule quiet_if_true_shift [OF parse_fun_declaration_params_loop_quiet]) simp
    with q Some
    have "quiet_if_true st (parse_fun_declaration_params_loop fd (add_param fd param s))"
      by (auto simp: quiet_if_true_def intro: emits_trans)
    with e Some show ?thesis
      by (simp add: eq)
  qed
qed

lemma parse_fun_declaration_scope_quiet:
  "quiet_if_true st (parse_fun_declaration_scope fd st)"
proof -
  obtain b1 s1 where e1: "parse_fun_declaration_params fd st = (b1, s1)"
    by (cases "parse_fun_declaration_params fd st")
  note q1 = quiet_if_trueD [OF parse_fun_declaration_params_quiet e1]
  show ?thesis
  proof (cases b1)
    case False
    with e1 q1 show ?thesis
      by (simp add: parse_fun_declaration_scope_def)
  next
    case True
    obtain r2 s2 where e2: "expect_and_consume CloseParen s1 = (r2, s2)"
      by (cases "expect_and_consume CloseParen s1")
    note q2 = quiet_if_okD [OF expect_and_consume_quiet e2]
    from q1 q2 have m2: "emits st s2"
      by (blast intro: emits_trans)
    show ?thesis
    proof (cases r2)
      case None
      with e1 True e2 m2 show ?thesis
        by (simp add: parse_fun_declaration_scope_def)
    next
      case w: (Some w)
      obtain r3 s3 where e3: "parse_compound_stmt {CompoundStmt, FunScope} s2 = (r3, s3)"
        by (cases "parse_compound_stmt {CompoundStmt, FunScope} s2")
      note q3 = quiet_if_okD [OF parse_quiet(3) e3]
      from m2 q3 have m3: "emits st s3"
        by (blast intro: emits_trans)
      show ?thesis
      proof (cases r3)
        case None
        with e1 True e2 w e3 m3 show ?thesis
          by (simp add: parse_fun_declaration_scope_def)
      next
        case (Some comp_stmt)
        with q1 q2 q3 True w have d3: "expected_diags s3 = expected_diags st"
          by simp
        have "diags (set_body fd comp_stmt s3) = diags s3"
          by simp
        with m3 d3 have "quiet_if_true st (True, set_body fd comp_stmt s3)"
          by (simp add: quiet_if_true_def emits_def expected_diags_def)
        with e1 True e2 w e3 Some show ?thesis
          by (simp add: parse_fun_declaration_scope_def)
      qed
    qed
  qed
qed

lemma parse_fun_declaration_quiet: "quiet_if_ok st (parse_fun_declaration st)"
proof -
  have a: "quiet_if_ok s (case act_on_fun_decl_start t i s of
             (fun_decl, st4) \<Rightarrow>
               (case parse_fun_declaration_scope fun_decl (push_scope {FunParamsScope} st4) of
                  (False, st5) \<Rightarrow> (None, pop_scope st5)
                | (True, st5) \<Rightarrow> act_on_fun_decl_end fun_decl (pop_scope st5)))" for s t i
  proof -
    obtain fd s4 where e4: "act_on_fun_decl_start t i s = (fd, s4)"
      by (cases "act_on_fun_decl_start t i s")
    then have d4: "emits s s4" "expected_diags s4 = expected_diags s"
      by (auto simp: act_on_fun_decl_start_def Let_def emits_def expected_diags_def
            parser_expected_def split: if_splits)
    obtain b s5 where e5: "parse_fun_declaration_scope fd (push_scope {FunParamsScope} s4) = (b, s5)"
      by (cases "parse_fun_declaration_scope fd (push_scope {FunParamsScope} s4)")
    have "quiet_if_true (push_scope {FunParamsScope} s4)
            (parse_fun_declaration_scope fd (push_scope {FunParamsScope} s4))"
      by (rule parse_fun_declaration_scope_quiet)
    with e5 have "emits s4 s5" and "b \<longrightarrow> expected_diags s5 = expected_diags s4"
      by (simp_all add: quiet_if_true_def emits_def expected_diags_def)
    with d4 have "emits s s5" and "b \<longrightarrow> expected_diags s5 = expected_diags s"
      by (auto simp: emits_def)
    then have "emits s (pop_scope s5)"
      and "b \<longrightarrow> expected_diags (pop_scope s5) = expected_diags s"
      by (simp_all add: emits_def expected_diags_def)
    with e4 e5 show ?thesis
      by (cases b) (simp_all add: quiet_if_ok_def act_on_fun_decl_end_def)
  qed
  show ?thesis
    unfolding parse_fun_declaration_def
    by (rule quiet_intros expect_and_consume_type_quiet a
          | simp (no_asm) only: quiet_simps)+
qed

lemma parse_declaration_quiet: "quiet_if_ok st (parse_declaration st)"
  using parse_fun_declaration_quiet [of st] parse_var_declaration_quiet [of st]
  by (auto simp: parse_declaration_def quiet_if_ok_def split: prod.splits)

lemma parse_program_decls_quiet: "quiet_if_ok st (parse_program_decls program st)"
proof (induct program st rule: parse_program_decls.induct)
  case (1 program st)
  show ?case
    by (subst parse_program_decls.simps)
       ((rule quiet_intros parse_declaration_quiet 1
          | assumption | rule refl | simp (no_asm) only: quiet_simps)+)
qed

lemma parse_program_quiet: "quiet_if_ok st (parse_program st)"
proof -
  obtain r s where e: "parse_program_decls (ASTProgram []) (push_scope {} st) = (r, s)"
    by (cases "parse_program_decls (ASTProgram []) (push_scope {} st)")
  note q = quiet_if_okD [OF parse_program_decls_quiet e]
  then have "emits st (pop_scope s)" and "emits st s"
    and "r \<noteq> None \<longrightarrow> expected_diags (pop_scope s) = expected_diags st"
    by (simp_all add: emits_def expected_diags_def)
  with e show ?thesis
    by (cases r)
       (simp_all add: parse_program_def act_on_program_start_def act_on_program_end_def
          quiet_if_ok_def emits_same)
qed

text \<open>
  Claim C3. Whenever \<^verbatim>\<open>expect_and_consume\<close> or \<^verbatim>\<open>expect_and_consume_type\<close> does not find
  the word it expects, it emits its diagnostic (\<^verbatim>\<open>parser_expected_token\<close> with the
  expected category, or \<^verbatim>\<open>parser_expected_type\<close>) and returns null; and every production
  that encloses the miss returns null, up to \<^verbatim>\<open>parse_program\<close>. Diagnostics are never
  taken back, so the second part says: a production that returns a node has added none
  of the diagnostics \<^verbatim>\<open>parser_expected_*\<close> to those it found, and when one of them has been
  emitted in a parse of a program, \<^verbatim>\<open>parse_program\<close> returns null and no tree is
  built.
\<close>

theorem expect_miss_returns_null:
  "(category (peek_word st) \<noteq> c \<longrightarrow>
      expect_and_consume c st = (None, report parser_expected_token [CategoryParam c] st)) \<and>
   (category (peek_word st) \<notin> {Void, Int_kw} \<longrightarrow>
      expect_and_consume_type st = (None, report parser_expected_type [] st)) \<and>
   quiet_if_ok st (parse_program st) \<and> quiet_if_ok st (parse_declaration st) \<and>
   quiet_if_ok st (parse_var_declaration st) \<and> quiet_if_ok st (parse_fun_declaration st) \<and>
   quiet_if_ok st (parse_param st) \<and> quiet_if_ok st (parse_statement st) \<and>
   quiet_if_ok st (parse_expr_stmt st) \<and> quiet_if_ok st (parse_compound_stmt fl st) \<and>
   quiet_if_ok st (parse_selection_stmt st) \<and> quiet_if_ok st (parse_iteration_stmt st) \<and>
   quiet_if_ok st (parse_return_stmt st) \<and> quiet_if_ok st (parse_expression st) \<and>
   quiet_if_ok st (parse_simple_expression st) \<and> quiet_if_ok st (parse_additive_expression st) \<and>
   quiet_if_ok st (parse_term st) \<and> quiet_if_ok st (parse_factor st) \<and>
   quiet_if_ok st (parse_number st) \<and> quiet_if_ok st (parse_var st) \<and>
   quiet_if_ok st (parse_call st) \<and>
   ((\<exists>d \<in> set (diags (snd (parse_program (initial_state ws)))). parser_expected (code d)) \<longrightarrow>
      fst (parse_program (initial_state ws)) = None)"
proof -
  have "fst (parse_program (initial_state ws)) = None"
    if "\<exists>d \<in> set (diags (snd (parse_program (initial_state ws)))). parser_expected (code d)"
  proof (rule ccontr)
    assume "fst (parse_program (initial_state ws)) \<noteq> None"
    with parse_program_quiet [of "initial_state ws"]
    have "expected_diags (snd (parse_program (initial_state ws))) = expected_diags (initial_state ws)"
      by (simp add: quiet_if_ok_def)
    then have "filter (\<lambda>d. parser_expected (code d)) (diags (snd (parse_program (initial_state ws)))) = []"
      by (simp add: expected_diags_def initial_state_def)
    with that show False
      by (auto simp: filter_empty_conv)
  qed
  moreover have "category (peek_word st) \<noteq> c \<longrightarrow>
      expect_and_consume c st = (None, report parser_expected_token [CategoryParam c] st)"
    by (simp add: expect_and_consume_def try_consume_def)
  moreover have "category (peek_word st) \<notin> {Void, Int_kw} \<longrightarrow>
      expect_and_consume_type st = (None, report parser_expected_type [] st)"
    by (simp add: expect_and_consume_type_def try_consume_def)
  ultimately show ?thesis
    using parse_quiet [of st] parse_program_quiet [of st] parse_declaration_quiet [of st]
      parse_var_declaration_quiet [of st] parse_fun_declaration_quiet [of st]
      parse_param_quiet [of st] parse_number_quiet [of st]
    by blast
qed

text \<open>The words of \<^verbatim>\<open>int x\<close>, where the semicolon is missing.\<close>

definition missing_semicolon_words :: "Word list" where
  "missing_semicolon_words = [mk_word Int_kw ''int'', mk_word Identifier ''x'']"

theorem expect_miss_returns_null_witness:
  "category (peek_word (initial_state [])) \<noteq> Semicolon \<and>
   expect_and_consume Semicolon (initial_state []) =
     (None, report parser_expected_token [CategoryParam Semicolon] (initial_state [])) \<and>
   diags (snd (parse_program (initial_state missing_semicolon_words))) =
     [\<lparr>code = parser_expected_token, args = [CategoryParam Semicolon]\<rparr>] \<and>
   parser_expected parser_expected_token \<and>
   fst (parse_program (initial_state missing_semicolon_words)) = None"
  using expect_miss_returns_null [of "initial_state []" Semicolon "{}" missing_semicolon_words]
  by (simp add: missing_semicolon_words_def mk_word_def parser_expected_def
        parse_simps parse_defs sema_defs)


section \<open>The grammar\<close>

text \<open>
  The grammar of the language, as the comment at the end of parser.cpp gives it, over
  the categories of the words: \<open>derives_expression cs\<close> says that the nonterminal
  \<^verbatim>\<open><expression>\<close> derives the categories \<open>cs\<close>, and so on for the other nonterminals.
\<close>

inductive derives_type_specifier :: "Category list \<Rightarrow> bool" where
  "derives_type_specifier [Int_kw]"
| "derives_type_specifier [Void]"

inductive derives_var_declaration :: "Category list \<Rightarrow> bool" where
  "derives_type_specifier t \<Longrightarrow> derives_var_declaration (t @ [Identifier, Semicolon])"
| "derives_type_specifier t \<Longrightarrow>
     derives_var_declaration (t @ [Identifier, OpenBracket, Number, CloseBracket, Semicolon])"

inductive derives_param :: "Category list \<Rightarrow> bool" where
  "derives_type_specifier t \<Longrightarrow> derives_param (t @ [Identifier])"
| "derives_type_specifier t \<Longrightarrow> derives_param (t @ [Identifier, OpenBracket, CloseBracket])"

inductive derives_param_list :: "Category list \<Rightarrow> bool" where
  "derives_param_list ps \<Longrightarrow> derives_param p \<Longrightarrow> derives_param_list (ps @ [Comma] @ p)"
| "derives_param p \<Longrightarrow> derives_param_list p"

inductive derives_params :: "Category list \<Rightarrow> bool" where
  "derives_param_list ps \<Longrightarrow> derives_params ps"
| "derives_params [Void]"

definition relop :: "Category set" where
  "relop = {LessEqual, Less, Greater, GreaterEqual, Equal, NotEqual}"

definition addop :: "Category set" where
  "addop = {Plus_op, Minus}"

definition mulop :: "Category set" where
  "mulop = {Multiply, Divide}"

inductive
  derives_expression :: "Category list \<Rightarrow> bool" and
  derives_var :: "Category list \<Rightarrow> bool" and
  derives_simple_expression :: "Category list \<Rightarrow> bool" and
  derives_additive_expression :: "Category list \<Rightarrow> bool" and
  derives_term :: "Category list \<Rightarrow> bool" and
  derives_factor :: "Category list \<Rightarrow> bool" and
  derives_call :: "Category list \<Rightarrow> bool" and
  derives_args :: "Category list \<Rightarrow> bool" and
  derives_arg_list :: "Category list \<Rightarrow> bool"
where
  "derives_var v \<Longrightarrow> derives_expression e \<Longrightarrow> derives_expression (v @ [Assign] @ e)"
| "derives_simple_expression s \<Longrightarrow> derives_expression s"
| "derives_var [Identifier]"
| "derives_expression e \<Longrightarrow> derives_var ([Identifier, OpenBracket] @ e @ [CloseBracket])"
| "derives_additive_expression a \<Longrightarrow> r \<in> relop \<Longrightarrow> derives_additive_expression b \<Longrightarrow>
     derives_simple_expression (a @ [r] @ b)"
| "derives_additive_expression a \<Longrightarrow> derives_simple_expression a"
| "derives_additive_expression a \<Longrightarrow> p \<in> addop \<Longrightarrow> derives_term t \<Longrightarrow>
     derives_additive_expression (a @ [p] @ t)"
| "derives_term t \<Longrightarrow> derives_additive_expression t"
| "derives_term t \<Longrightarrow> m \<in> mulop \<Longrightarrow> derives_factor f \<Longrightarrow> derives_term (t @ [m] @ f)"
| "derives_factor f \<Longrightarrow> derives_term f"
| "derives_expression e \<Longrightarrow> derives_factor ([OpenParen] @ e @ [CloseParen])"
| "derives_var v \<Longrightarrow> derives_factor v"
| "derives_call c \<Longrightarrow> derives_factor c"
| "derives_factor [Number]"
| "derives_args as \<Longrightarrow> derives_call ([Identifier, OpenParen] @ as @ [CloseParen])"
| "derives_arg_list as \<Longrightarrow> derives_args as"
| "derives_args []"
| "derives_arg_list as \<Longrightarrow> derives_expression e \<Longrightarrow> derives_arg_list (as @ [Comma] @ e)"
| "derives_expression e \<Longrightarrow> derives_arg_list e"

inductive derives_local_declarations :: "Category list \<Rightarrow> bool" where
  "derives_local_declarations ds \<Longrightarrow> derives_var_declaration d \<Longrightarrow>
     derives_local_declarations (ds @ d)"
| "derives_local_declarations []"

inductive
  derives_statement :: "Category list \<Rightarrow> bool" and
  derives_statement_list :: "Category list \<Rightarrow> bool" and
  derives_compound_stmt :: "Category list \<Rightarrow> bool" and
  derives_expression_stmt :: "Category list \<Rightarrow> bool" and
  derives_selection_stmt :: "Category list \<Rightarrow> bool" and
  derives_iteration_stmt :: "Category list \<Rightarrow> bool" and
  derives_return_stmt :: "Category list \<Rightarrow> bool"
where
  "derives_expression_stmt s \<Longrightarrow> derives_statement s"
| "derives_compound_stmt s \<Longrightarrow> derives_statement s"
| "derives_selection_stmt s \<Longrightarrow> derives_statement s"
| "derives_iteration_stmt s \<Longrightarrow> derives_statement s"
| "derives_return_stmt s \<Longrightarrow> derives_statement s"
| "derives_statement_list ss \<Longrightarrow> derives_statement s \<Longrightarrow> derives_statement_list (ss @ s)"
| "derives_statement_list []"
| "derives_local_declarations ds \<Longrightarrow> derives_statement_list ss \<Longrightarrow>
     derives_compound_stmt ([OpenCurly] @ ds @ ss @ [CloseCurly])"
| "derives_expression e \<Longrightarrow> derives_expression_stmt (e @ [Semicolon])"
| "derives_expression_stmt [Semicolon]"
| "derives_expression e \<Longrightarrow> derives_statement s \<Longrightarrow>
     derives_selection_stmt ([If_kw, OpenParen] @ e @ [CloseParen] @ s)"
| "derives_expression e \<Longrightarrow> derives_statement s1 \<Longrightarrow> derives_statement s2 \<Longrightarrow>
     derives_selection_stmt ([If_kw, OpenParen] @ e @ [CloseParen] @ s1 @ [Else] @ s2)"
| "derives_expression e \<Longrightarrow> derives_statement s \<Longrightarrow>
     derives_iteration_stmt ([While, OpenParen] @ e @ [CloseParen] @ s)"
| "derives_return_stmt [Return, Semicolon]"
| "derives_expression e \<Longrightarrow> derives_return_stmt ([Return] @ e @ [Semicolon])"

inductive derives_fun_declaration :: "Category list \<Rightarrow> bool" where
  "derives_type_specifier t \<Longrightarrow> derives_params ps \<Longrightarrow> derives_compound_stmt b \<Longrightarrow>
     derives_fun_declaration (t @ [Identifier, OpenParen] @ ps @ [CloseParen] @ b)"

inductive derives_declaration :: "Category list \<Rightarrow> bool" where
  "derives_var_declaration d \<Longrightarrow> derives_declaration d"
| "derives_fun_declaration d \<Longrightarrow> derives_declaration d"

inductive derives_declaration_list :: "Category list \<Rightarrow> bool" where
  "derives_declaration_list ds \<Longrightarrow> derives_declaration d \<Longrightarrow> derives_declaration_list (ds @ d)"
| "derives_declaration d \<Longrightarrow> derives_declaration_list d"

inductive derives_program :: "Category list \<Rightarrow> bool" where
  "derives_declaration_list ds \<Longrightarrow> derives_program ds"

text \<open>
  In every sentence of the grammar an \<^verbatim>\<open>=\<close> follows the end of a \<^verbatim>\<open><var>\<close>, which is an
  identifier or a closing bracket: \<open>assign_follows prev cs\<close> says so of the categories
  \<open>cs\<close> that come after the category \<open>prev\<close>.
\<close>

fun assign_follows :: "Category \<Rightarrow> Category list \<Rightarrow> bool" where
  "assign_follows prev [] = True"
| "assign_follows prev (c # cs) =
     ((c = Assign \<longrightarrow> prev = Identifier \<or> prev = CloseBracket) \<and> assign_follows c cs)"

lemma assign_follows_append:
  "assign_follows p (xs @ ys) = (assign_follows p xs \<and> assign_follows (last (p # xs)) ys)"
  by (induct xs arbitrary: p) auto

lemma assign_follows_any: "assign_follows Semicolon cs \<Longrightarrow> assign_follows p cs"
  by (cases cs) auto

lemma type_specifier_assign: "derives_type_specifier t \<Longrightarrow> assign_follows Semicolon t"
  by (induct rule: derives_type_specifier.induct) auto

lemma var_declaration_assign: "derives_var_declaration d \<Longrightarrow> assign_follows Semicolon d"
  by (induct rule: derives_var_declaration.induct)
     (auto simp: assign_follows_append dest!: type_specifier_assign)

lemma param_assign: "derives_param p \<Longrightarrow> assign_follows Semicolon p"
  by (induct rule: derives_param.induct)
     (auto simp: assign_follows_append dest!: type_specifier_assign)

lemma param_list_assign: "derives_param_list ps \<Longrightarrow> assign_follows Semicolon ps"
  by (induct rule: derives_param_list.induct)
     (auto simp: assign_follows_append dest!: param_assign intro: assign_follows_any)

lemma params_assign: "derives_params ps \<Longrightarrow> assign_follows Semicolon ps"
  by (induct rule: derives_params.induct) (auto dest: param_list_assign)

lemma expression_assign:
  "derives_expression e \<Longrightarrow> assign_follows Semicolon e"
  "derives_var v \<Longrightarrow>
     assign_follows Semicolon v \<and> v \<noteq> [] \<and> (last v = Identifier \<or> last v = CloseBracket)"
  "derives_simple_expression s \<Longrightarrow> assign_follows Semicolon s"
  "derives_additive_expression a \<Longrightarrow> assign_follows Semicolon a"
  "derives_term t \<Longrightarrow> assign_follows Semicolon t"
  "derives_factor f \<Longrightarrow> assign_follows Semicolon f"
  "derives_call c \<Longrightarrow> assign_follows Semicolon c"
  "derives_args as \<Longrightarrow> assign_follows Semicolon as"
  "derives_arg_list as \<Longrightarrow> assign_follows Semicolon as"
  by (induct rule: derives_expression_derives_var_derives_simple_expression_derives_additive_expression_derives_term_derives_factor_derives_call_derives_args_derives_arg_list.inducts)
     (auto simp: assign_follows_append relop_def addop_def mulop_def intro: assign_follows_any)

lemma local_declarations_assign: "derives_local_declarations ds \<Longrightarrow> assign_follows Semicolon ds"
  by (induct rule: derives_local_declarations.induct)
     (auto simp: assign_follows_append dest!: var_declaration_assign intro: assign_follows_any)

lemma statement_assign:
  "derives_statement s \<Longrightarrow> assign_follows Semicolon s"
  "derives_statement_list ss \<Longrightarrow> assign_follows Semicolon ss"
  "derives_compound_stmt c \<Longrightarrow> assign_follows Semicolon c"
  "derives_expression_stmt e \<Longrightarrow> assign_follows Semicolon e"
  "derives_selection_stmt i \<Longrightarrow> assign_follows Semicolon i"
  "derives_iteration_stmt w \<Longrightarrow> assign_follows Semicolon w"
  "derives_return_stmt r \<Longrightarrow> assign_follows Semicolon r"
  by (induct rule: derives_statement_derives_statement_list_derives_compound_stmt_derives_expression_stmt_derives_selection_stmt_derives_iteration_stmt_derives_return_stmt.inducts)
     (auto simp: assign_follows_append
           dest!: expression_assign(1) local_declarations_assign intro: assign_follows_any)

lemma fun_declaration_assign: "derives_fun_declaration d \<Longrightarrow> assign_follows Semicolon d"
  by (induct rule: derives_fun_declaration.induct)
     (auto simp: assign_follows_append
           dest!: type_specifier_assign params_assign statement_assign(3)
           intro: assign_follows_any)

lemma declaration_assign: "derives_declaration d \<Longrightarrow> assign_follows Semicolon d"
  by (induct rule: derives_declaration.induct)
     (auto dest: var_declaration_assign fun_declaration_assign)

lemma declaration_list_assign: "derives_declaration_list ds \<Longrightarrow> assign_follows Semicolon ds"
  by (induct rule: derives_declaration_list.induct)
     (auto simp: assign_follows_append dest!: declaration_assign intro: assign_follows_any)

lemma program_assign: "derives_program p \<Longrightarrow> assign_follows Semicolon p"
  by (induct rule: derives_program.induct) (auto dest: declaration_list_assign)


section \<open>A parenthesized variable on the left of an assignment\<close>

text \<open>
  Claim C9. For every input of the form \<^verbatim>\<open>( var ) = expr\<close>, \<^verbatim>\<open>parse_expression\<close> accepts
  it as an assignment to the variable: \<^verbatim>\<open>parse_factor\<close> returns the node of the
  expression in the parentheses as it is, so when that node is a variable reference and
  the word after the closing parenthesis is \<^verbatim>\<open>=\<close>, \<^verbatim>\<open>parse_expression\<close> consumes the \<^verbatim>\<open>=\<close>,
  parses the right-hand side and builds the assignment whose left-hand side is that
  variable reference (null when the right-hand side fails). The grammar derives no such
  expression: in no sentence of \<^verbatim>\<open><expression>\<close> does \<^verbatim>\<open>=\<close> follow a closing parenthesis.
\<close>

theorem parenthesized_var_assignment:
  "(category (peek_word st) = OpenParen \<and>
    parse_expression (consume st) = (Some (ASTVarRef d i), st1) \<and>
    category (peek_word st1) = CloseParen \<and> category (peek_word (consume st1)) = Assign \<longrightarrow>
      parse_factor st = (Some (ASTVarRef d i), consume st1) \<and>
      parse_expression st =
        (case parse_expression (consume (consume st1)) of
           (Some rhs, st2) \<Rightarrow> (Some (ASTBinaryExpr Assign (ASTVarRef d i) rhs), st2)
         | (None, st2) \<Rightarrow> (None, st2))) \<and>
   \<not> derives_expression (OpenParen # v @ CloseParen # Assign # e)"
proof -
  have "\<not> assign_follows Semicolon (OpenParen # v @ CloseParen # Assign # e)"
    by (simp add: assign_follows_append)
  then have g: "\<not> derives_expression (OpenParen # v @ CloseParen # Assign # e)"
    using expression_assign(1) by blast
  have "parse_factor st = (Some (ASTVarRef d i), consume st1) \<and>
      parse_expression st =
        (case parse_expression (consume (consume st1)) of
           (Some rhs, st2) \<Rightarrow> (Some (ASTBinaryExpr Assign (ASTVarRef d i) rhs), st2)
         | (None, st2) \<Rightarrow> (None, st2))"
    if h: "category (peek_word st) = OpenParen"
      "parse_expression (consume st) = (Some (ASTVarRef d i), st1)"
      "category (peek_word st1) = CloseParen" "category (peek_word (consume st1)) = Assign"
  proof -
    have f: "parse_factor st = (Some (ASTVarRef d i), consume st1)"
      using h by (simp add: parse_factor.simps [of st] expect_and_consume_def try_consume_def)
    have t: "parse_term st = (Some (ASTVarRef d i), consume st1)"
      using h f
      by (simp add: parse_term.simps [of st] parse_term_loop.simps [of _ "consume st1"]
            try_consume_def)
    have a: "parse_additive_expression st = (Some (ASTVarRef d i), consume st1)"
      using h t
      by (simp add: parse_additive_expression.simps [of st]
            parse_additive_expression_loop.simps [of _ "consume st1"] try_consume_def)
    have s: "parse_simple_expression st = (Some (ASTVarRef d i), consume st1)"
      using h a by (simp add: parse_simple_expression.simps [of st] try_consume_def)
    have "parse_expression st =
        (case parse_expression (consume (consume st1)) of
           (Some rhs, st2) \<Rightarrow> (Some (ASTBinaryExpr Assign (ASTVarRef d i) rhs), st2)
         | (None, st2) \<Rightarrow> (None, st2))"
      using h s
      by (auto simp: parse_expression.simps [of st] try_consume_def act_on_assign_def
               split: prod.splits option.splits)
    with f show ?thesis
      by simp
  qed
  with g show ?thesis
    by blast
qed

text \<open>The words of \<^verbatim>\<open>(x) = 1\<close>, parsed where \<open>x\<close> is a variable.\<close>

definition paren_assign_words :: "Word list" where
  "paren_assign_words =
     [mk_word OpenParen ''('', mk_word Identifier ''x'', mk_word CloseParen '')'',
      mk_word Assign ''='', mk_word Number ''1'']"

definition one_var :: "Scope list" where
  "one_var = [\<lparr>flags = {}, symbols = [(''x'', VarDecl (ASTVarDecl IntTy ''x'' None))]\<rparr>]"

theorem parenthesized_var_assignment_witness:
  "category (peek_word (initial_state paren_assign_words\<lparr>scopes := one_var\<rparr>)) = OpenParen \<and>
   parse_expression (initial_state (drop 1 paren_assign_words)\<lparr>scopes := one_var\<rparr>) =
     (Some (ASTVarRef (Some (VarDecl (ASTVarDecl IntTy ''x'' None))) None),
      initial_state (drop 2 paren_assign_words)\<lparr>scopes := one_var\<rparr>) \<and>
   parse_factor (initial_state paren_assign_words\<lparr>scopes := one_var\<rparr>) =
     (Some (ASTVarRef (Some (VarDecl (ASTVarDecl IntTy ''x'' None))) None),
      initial_state (drop 3 paren_assign_words)\<lparr>scopes := one_var\<rparr>) \<and>
   parse_expression (initial_state paren_assign_words\<lparr>scopes := one_var\<rparr>) =
     (Some (ASTBinaryExpr Assign
        (ASTVarRef (Some (VarDecl (ASTVarDecl IntTy ''x'' None))) None) (ASTNumber 1)),
      initial_state []\<lparr>scopes := one_var\<rparr>) \<and>
   \<not> derives_expression (map category paren_assign_words)"
  using parenthesized_var_assignment
          [of "initial_state paren_assign_words\<lparr>scopes := one_var\<rparr>"
              "Some (VarDecl (ASTVarDecl IntTy ''x'' None))" None
              "initial_state (drop 2 paren_assign_words)\<lparr>scopes := one_var\<rparr>"
              "[Identifier]" "[Number]"]
  by (simp add: paren_assign_words_def one_var_def mk_word_def parse_simps parse_defs sema_defs)

section \<open>A program that the grammar does not derive\<close>

text \<open>The words of the program \<^verbatim>\<open>int x; int main(void) { (x) = 1; }\<close>.\<close>

definition paren_assign_program :: "Word list" where
  "paren_assign_program =
     [mk_word Int_kw ''int'', mk_word Identifier ''x'', mk_word Semicolon '';'',
      mk_word Int_kw ''int'', mk_word Identifier ''main'', mk_word OpenParen ''('',
      mk_word Void ''void'', mk_word CloseParen '')'', mk_word OpenCurly ''{'',
      mk_word OpenParen ''('', mk_word Identifier ''x'', mk_word CloseParen '')'',
      mk_word Assign ''='', mk_word Number ''1'', mk_word Semicolon '';'',
      mk_word CloseCurly ''}'']"

text \<open>
  Claim C1 says that the parser never accepts words that the grammar cannot derive. On
  the program above \<^verbatim>\<open>parse_program\<close> returns a tree, with no diagnostic, in which the
  statement is the assignment \<open>x = 1\<close>; the grammar does not derive the words of the
  program, in which \<^verbatim>\<open>=\<close> follows a closing parenthesis.
\<close>

theorem parse_program_accepts_underivable:
  "parse_program (initial_state paren_assign_program) =
     (Some (ASTProgram [VarDecl (ASTVarDecl IntTy ''x'' None), FunDecl 0]),
      \<lparr>words = [], diags = [], scopes = [],
       fun_decls =
         [\<lparr>retn = IntTy, name = ''main'', params = [],
           body = Some (ASTCompoundStmt []
             [ExprStmt (ASTBinaryExpr Assign
                (ASTVarRef (Some (VarDecl (ASTVarDecl IntTy ''x'' None))) None)
                (ASTNumber 1))])\<rparr>]\<rparr>) \<and>
   \<not> derives_program (map category paren_assign_program)"
proof -
  have "\<not> assign_follows Semicolon (map category paren_assign_program)"
    by (simp add: paren_assign_program_def mk_word_def)
  then have "\<not> derives_program (map category paren_assign_program)"
    using program_assign by blast
  moreover have "parse_program (initial_state paren_assign_program) =
     (Some (ASTProgram [VarDecl (ASTVarDecl IntTy ''x'' None), FunDecl 0]),
      \<lparr>words = [], diags = [], scopes = [],
       fun_decls =
         [\<lparr>retn = IntTy, name = ''main'', params = [],
           body = Some (ASTCompoundStmt []
             [ExprStmt (ASTBinaryExpr Assign
                (ASTVarRef (Some (VarDecl (ASTVarDecl IntTy ''x'' None))) None)
                (ASTNumber 1))])\<rparr>]\<rparr>)"
    by (simp add: paren_assign_program_def mk_word_def parse_simps parse_defs sema_defs)
  ultimately show ?thesis
    by simp
qed


section \<open>Scopes\<close>





lemma scopes_push_scope [simp]:
  "scopes (push_scope fl st) = \<lparr>flags = fl, symbols = []\<rparr> # scopes st"
  by (simp add: push_scope_def)

lemma scopes_pop_scope [simp]: "scopes (pop_scope st) = tl (scopes st)"
  by (simp add: pop_scope_def)

lemma scopes_add_param [simp]: "scopes (add_param fd p st) = scopes st"
  by (simp add: add_param_def)

lemma scopes_set_body [simp]: "scopes (set_body fd b st) = scopes st"
  by (simp add: set_body_def)



lemma fun_decls_push_scope [simp]: "fun_decls (push_scope fl st) = fun_decls st"
  by (simp add: push_scope_def)

lemma fun_decls_pop_scope [simp]: "fun_decls (pop_scope st) = fun_decls st"
  by (simp add: pop_scope_def)

lemma fun_decls_install [simp]: "fun_decls (install n d st) = fun_decls st"
  by (simp add: install_def split: list.splits)




























subsection \<open>The scopes of a function declaration\<close>











text \<open>
  The semantic action at the start of a function declaration: it adds the shell to the
  function declarations and pushes no frame; it binds the name in the current frame
  unless the name exists there.
\<close>

lemma declared_in_current_fun_decls [simp]:
  "declared_in_current n (st\<lparr>fun_decls := fs\<rparr>) = declared_in_current n st"
  by (simp add: declared_in_current_def)







section \<open>The choice between the two declarations\<close>

text \<open>
  Claim C6. For every input, \<^verbatim>\<open>parse_declaration\<close> parses a function declaration
  exactly when the third word of the lookahead window, \<^verbatim>\<open>lookahead(2)\<close>, has the
  category \<^verbatim>\<open>OpenParen\<close>, and parses a variable declaration otherwise: its result is
  that of the production chosen, and the node it returns is a function declaration only
  in the first case and a variable declaration only in the second.
\<close>

theorem parse_declaration_lookahead:
  "(category (lookahead 2 st) = OpenParen \<longrightarrow>
      parse_declaration st =
        (map_option FunDecl (fst (parse_fun_declaration st)), snd (parse_fun_declaration st))) \<and>
   (category (lookahead 2 st) \<noteq> OpenParen \<longrightarrow>
      parse_declaration st =
        (map_option VarDecl (fst (parse_var_declaration st)), snd (parse_var_declaration st))) \<and>
   (fst (parse_declaration st) = Some (FunDecl fd) \<longrightarrow> category (lookahead 2 st) = OpenParen) \<and>
   (fst (parse_declaration st) = Some (VarDecl vd) \<longrightarrow> category (lookahead 2 st) \<noteq> OpenParen)"
  by (auto simp: parse_declaration_def split: prod.splits)

text \<open>The words of \<^verbatim>\<open>int f(void) { }\<close> and of \<^verbatim>\<open>int x;\<close>.\<close>

definition fun_decl_words :: "Word list" where
  "fun_decl_words =
     [mk_word Int_kw ''int'', mk_word Identifier ''f'', mk_word OpenParen ''('',
      mk_word Void ''void'', mk_word CloseParen '')'', mk_word OpenCurly ''{'',
      mk_word CloseCurly ''}'']"

definition var_decl_words :: "Word list" where
  "var_decl_words = [mk_word Int_kw ''int'', mk_word Identifier ''x'', mk_word Semicolon '';'']"

theorem parse_declaration_lookahead_witness:
  "category (lookahead 2 (initial_state fun_decl_words)) = OpenParen \<and>
   fst (parse_declaration (initial_state fun_decl_words)) = Some (FunDecl 0) \<and>
   fst (parse_declaration (initial_state fun_decl_words)) =
     map_option FunDecl (fst (parse_fun_declaration (initial_state fun_decl_words))) \<and>
   category (lookahead 2 (initial_state var_decl_words)) = Semicolon \<and>
   fst (parse_declaration (initial_state var_decl_words)) =
     Some (VarDecl (ASTVarDecl IntTy ''x'' None)) \<and>
   fst (parse_declaration (initial_state var_decl_words)) =
     map_option VarDecl (fst (parse_var_declaration (initial_state var_decl_words)))"
  using parse_declaration_lookahead [of "initial_state fun_decl_words" 0 "ASTVarDecl IntTy ''x'' None"]
    parse_declaration_lookahead [of "initial_state var_decl_words" 0 "ASTVarDecl IntTy ''x'' None"]
  by (simp add: fun_decl_words_def var_decl_words_def mk_word_def parse_simps parse_defs sema_defs)

section \<open>The empty program\<close>

text \<open>
  Modelled from the spec: the exit code of the driver \<^verbatim>\<open>sintatico\<close>, whose main.cpp is
  not among the sources: 0 on success, non-zero when a diagnostic was emitted or no tree
  was built.
\<close>

definition sintatico :: "Word list \<Rightarrow> int" where
  "sintatico ws =
     (case parse_program (initial_state ws) of
        (Some program, st) \<Rightarrow> (if diags st = [] then 0 else 1)
      | (None, st) \<Rightarrow> 1)"

text \<open>
  Claim C8. On the empty program, whose source has no words, \<^verbatim>\<open>parse_program\<close> still
  tries a declaration: the parser emits the diagnostic \<^verbatim>\<open>parser_expected_type\<close> and no
  other, it returns null, and the driver exits with a code that is not zero.
\<close>

theorem empty_program:
  "fst (parse_program (initial_state [])) = None \<and>
   diags (snd (parse_program (initial_state []))) = [\<lparr>code = parser_expected_type, args = []\<rparr>] \<and>
   parse_program_decls (ASTProgram []) (push_scope {} (initial_state [])) =
     (None, report parser_expected_type [] (push_scope {} (initial_state []))) \<and>
   sintatico [] \<noteq> 0"
  by (simp add: sintatico_def parse_simps parse_defs sema_defs)

section \<open>Assignments\<close>

text \<open>
  Claim C4. \<^verbatim>\<open>parse_expression\<close> builds an assignment exactly when the simple
  expression it has parsed is a variable reference and the next word is \<^verbatim>\<open>=\<close>. It then
  consumes the \<^verbatim>\<open>=\<close> and parses the right-hand side by calling itself, so that
  assignment associates to the right, and the node it builds is a binary expression of
  operator \<^verbatim>\<open>Assign\<close> whose left-hand side is that variable reference (null when the
  right-hand side fails). Otherwise it returns the simple expression as it is, and null
  when there is none.
\<close>

theorem parse_expression_assignment:
  "(parse_simple_expression st = (Some expr1, st1) \<and>
      (\<exists>d i. expr1 = ASTVarRef d i) \<and> category (peek_word st1) = Assign \<longrightarrow>
        parse_expression st =
          (case parse_expression (consume st1) of
             (Some expr2, st2) \<Rightarrow> (Some (ASTBinaryExpr Assign expr1 expr2), st2)
           | (None, st2) \<Rightarrow> (None, st2))) \<and>
   (parse_simple_expression st = (Some expr1, st1) \<and>
      \<not> ((\<exists>d i. expr1 = ASTVarRef d i) \<and> category (peek_word st1) = Assign) \<longrightarrow>
        parse_expression st = (Some expr1, st1)) \<and>
   (parse_simple_expression st = (None, st1) \<longrightarrow> parse_expression st = (None, st1))"
proof -
  have v: "as_var_expr expr1 = (if \<exists>d i. expr1 = ASTVarRef d i then Some expr1 else None)"
    by (cases expr1) auto
  have e: "parse_expression st =
      (case parse_simple_expression st of
         (Some expr1, st1) \<Rightarrow>
           (if (\<exists>d i. expr1 = ASTVarRef d i) \<and> category (peek_word st1) = Assign
            then (case parse_expression (consume st1) of
                    (Some expr2, st2) \<Rightarrow> (Some (ASTBinaryExpr Assign expr1 expr2), st2)
                  | (None, st2) \<Rightarrow> (None, st2))
            else (Some expr1, st1))
       | (None, st1) \<Rightarrow> (None, st1))"
  proof (cases "parse_simple_expression st")
    case (Pair r s)
    show ?thesis
    proof (cases r)
      case None
      with Pair show ?thesis
        by (simp add: parse_expression.simps [of st])
    next
      case (Some x)
      have "as_var_expr x = (if \<exists>d i. x = ASTVarRef d i then Some x else None)"
        by (cases x) auto
      with Pair Some show ?thesis
        by (auto simp: parse_expression.simps [of st] try_consume_def act_on_assign_def
                 split: prod.splits option.splits)
    qed
  qed
  show ?thesis
    unfolding e by auto
qed

text \<open>The words of \<^verbatim>\<open>a = b = 1\<close>, parsed where \<open>a\<close> and \<open>b\<close> are variables.\<close>

definition assign_words :: "Word list" where
  "assign_words =
     [mk_word Identifier ''a'', mk_word Assign ''='', mk_word Identifier ''b'',
      mk_word Assign ''='', mk_word Number ''1'']"

definition two_vars :: "Scope list" where
  "two_vars =
     [\<lparr>flags = {}, symbols = [(''b'', VarDecl (ASTVarDecl IntTy ''b'' None)),
                               (''a'', VarDecl (ASTVarDecl IntTy ''a'' None))]\<rparr>]"

theorem parse_expression_assignment_witness:
  "parse_simple_expression (initial_state assign_words\<lparr>scopes := two_vars\<rparr>) =
     (Some (ASTVarRef (Some (VarDecl (ASTVarDecl IntTy ''a'' None))) None),
      initial_state (tl assign_words)\<lparr>scopes := two_vars\<rparr>) \<and>
   category (peek_word (initial_state (tl assign_words)\<lparr>scopes := two_vars\<rparr>)) = Assign \<and>
   parse_expression (initial_state assign_words\<lparr>scopes := two_vars\<rparr>) =
     (Some (ASTBinaryExpr Assign
        (ASTVarRef (Some (VarDecl (ASTVarDecl IntTy ''a'' None))) None)
        (ASTBinaryExpr Assign
           (ASTVarRef (Some (VarDecl (ASTVarDecl IntTy ''b'' None))) None)
           (ASTNumber 1))),
      initial_state []\<lparr>scopes := two_vars\<rparr>)"
  using parse_expression_assignment
          [of "initial_state assign_words\<lparr>scopes := two_vars\<rparr>"
              "ASTVarRef (Some (VarDecl (ASTVarDecl IntTy ''a'' None))) None"
              "initial_state (tl assign_words)\<lparr>scopes := two_vars\<rparr>"]
  by (simp add: assign_words_def two_vars_def mk_word_def parse_simps parse_defs sema_defs)

section \<open>Operators that associate to the left\<close>

text \<open>
  Claim C7. \<^verbatim>\<open>parse_additive_expression\<close> and \<^verbatim>\<open>parse_term\<close> parse their
  left-recursive productions by a loop and associate to the left: for operands
  \<open>a op1 b op2 c\<close>, where \<open>op1\<close> and \<open>op2\<close> are both additive operators (the operands
  being terms) or both multiplicative operators (the operands being factors), the node
  returned is \<open>BinaryExpr (BinaryExpr a op1 b) op2 c\<close>.
\<close>

theorem left_associative:
  "(parse_term st = (Some a, st1) \<and> category (peek_word st1) \<in> {Plus_op, Minus} \<and>
    parse_term (consume st1) = (Some b, st2) \<and> category (peek_word st2) \<in> {Plus_op, Minus} \<and>
    parse_term (consume st2) = (Some c, st3) \<and> category (peek_word st3) \<notin> {Plus_op, Minus} \<longrightarrow>
      parse_additive_expression st =
        (Some (ASTBinaryExpr (category (peek_word st2))
                 (ASTBinaryExpr (category (peek_word st1)) a b) c), st3)) \<and>
   (parse_factor st = (Some a, st1) \<and> category (peek_word st1) \<in> {Multiply, Divide} \<and>
    parse_factor (consume st1) = (Some b, st2) \<and> category (peek_word st2) \<in> {Multiply, Divide} \<and>
    parse_factor (consume st2) = (Some c, st3) \<and> category (peek_word st3) \<notin> {Multiply, Divide} \<longrightarrow>
      parse_term st =
        (Some (ASTBinaryExpr (category (peek_word st2))
                 (ASTBinaryExpr (category (peek_word st1)) a b) c), st3))"
proof -
  have add: "parse_additive_expression_loop e s =
      (if category (peek_word s) \<in> {Plus_op, Minus}
       then (case parse_term (consume s) of
               (Some e2, s2) \<Rightarrow>
                 parse_additive_expression_loop (ASTBinaryExpr (category (peek_word s)) e e2) s2
             | (None, s2) \<Rightarrow> (None, s2))
       else (Some e, s))" for e s
    by (subst parse_additive_expression_loop.simps)
       (auto simp: try_consume_def act_on_binary_expr_def split: prod.splits option.splits)
  have mul: "parse_term_loop e s =
      (if category (peek_word s) \<in> {Multiply, Divide}
       then (case parse_factor (consume s) of
               (Some e2, s2) \<Rightarrow>
                 parse_term_loop (ASTBinaryExpr (category (peek_word s)) e e2) s2
             | (None, s2) \<Rightarrow> (None, s2))
       else (Some e, s))" for e s
    by (subst parse_term_loop.simps)
       (auto simp: try_consume_def act_on_binary_expr_def split: prod.splits option.splits)
  have "parse_additive_expression st =
      (Some (ASTBinaryExpr (category (peek_word st2))
               (ASTBinaryExpr (category (peek_word st1)) a b) c), st3)"
    if "parse_term st = (Some a, st1)" "category (peek_word st1) \<in> {Plus_op, Minus}"
      "parse_term (consume st1) = (Some b, st2)" "category (peek_word st2) \<in> {Plus_op, Minus}"
      "parse_term (consume st2) = (Some c, st3)" "category (peek_word st3) \<notin> {Plus_op, Minus}"
    using that
    by (simp add: parse_additive_expression.simps add [of a st1] add [of _ st2] add [of _ st3])
  moreover have "parse_term st =
      (Some (ASTBinaryExpr (category (peek_word st2))
               (ASTBinaryExpr (category (peek_word st1)) a b) c), st3)"
    if "parse_factor st = (Some a, st1)" "category (peek_word st1) \<in> {Multiply, Divide}"
      "parse_factor (consume st1) = (Some b, st2)" "category (peek_word st2) \<in> {Multiply, Divide}"
      "parse_factor (consume st2) = (Some c, st3)" "category (peek_word st3) \<notin> {Multiply, Divide}"
    using that
    by (simp add: parse_term.simps mul [of a st1] mul [of _ st2] mul [of _ st3])
  ultimately show ?thesis
    by blast
qed

text \<open>The words of \<^verbatim>\<open>1 + 2 - 3\<close> and of \<^verbatim>\<open>1 * 2 / 3\<close>.\<close>

definition additive_words :: "Word list" where
  "additive_words =
     [mk_word Number ''1'', mk_word Plus_op ''+'', mk_word Number ''2'',
      mk_word Minus ''-'', mk_word Number ''3'']"

definition term_words :: "Word list" where
  "term_words =
     [mk_word Number ''1'', mk_word Multiply ''*'', mk_word Number ''2'',
      mk_word Divide ''/'', mk_word Number ''3'']"

theorem left_associative_witness:
  "parse_term (initial_state additive_words) = (Some (ASTNumber 1), initial_state (drop 1 additive_words)) \<and>
   parse_term (initial_state (drop 2 additive_words)) =
     (Some (ASTNumber 2), initial_state (drop 3 additive_words)) \<and>
   parse_term (initial_state (drop 4 additive_words)) = (Some (ASTNumber 3), initial_state []) \<and>
   parse_additive_expression (initial_state additive_words) =
     (Some (ASTBinaryExpr Minus (ASTBinaryExpr Plus_op (ASTNumber 1) (ASTNumber 2)) (ASTNumber 3)),
      initial_state []) \<and>
   parse_factor (initial_state term_words) = (Some (ASTNumber 1), initial_state (drop 1 term_words)) \<and>
   parse_term (initial_state term_words) =
     (Some (ASTBinaryExpr Divide (ASTBinaryExpr Multiply (ASTNumber 1) (ASTNumber 2)) (ASTNumber 3)),
      initial_state [])"
  using left_associative
          [of "initial_state additive_words" "ASTNumber 1" "initial_state (drop 1 additive_words)"
              "ASTNumber 2" "initial_state (drop 3 additive_words)" "ASTNumber 3" "initial_state []"]
        left_associative
          [of "initial_state term_words" "ASTNumber 1" "initial_state (drop 1 term_words)"
              "ASTNumber 2" "initial_state (drop 3 term_words)" "ASTNumber 3" "initial_state []"]
  by (simp add: additive_words_def term_words_def mk_word_def parse_simps parse_defs sema_defs)

section \<open>The scopes of a function declaration: the claims\<close>




















end
